theory Spec2Isabelle
  imports Complex_Main
begin

section \<open>Errors and numbers\<close>

text \<open>
  The error kinds thrown through \<open>NCRYSTAL_THROW\<close> and \<open>NCRYSTAL_THROW2\<close>. Each carries
  the static part of the message of its throw site; the parts streamed into a message
  at run time (file descriptions, line numbers, offending tokens) are left out.
\<close>

datatype error =
    BadInput string
  | MissingInfo string
  | LogicError string
  | FileNotFound string

fun isBadInput :: "error \<Rightarrow> bool" where
  "isBadInput (BadInput m) = True"
| "isBadInput e = False"

text \<open>
  A C++ \<open>double\<close> (IEEE 754 binary64): not-a-number, the two infinities, or a finite
  value, which is the real number it stands for. The sign of zero is not modelled.
  Comparisons follow IEEE 754: every ordered comparison with NaN is false and NaN
  differs from everything, itself included.
\<close>

datatype double = NaN | NegInf | Fin real | PosInf

definition ncisnan :: "double \<Rightarrow> bool" where
  "ncisnan d = (d = NaN)"

definition ncisinf :: "double \<Rightarrow> bool" where
  "ncisinf d = (d = PosInf \<or> d = NegInf)"

fun dlt :: "double \<Rightarrow> double \<Rightarrow> bool" where
  "dlt NaN b = False"
| "dlt a NaN = False"
| "dlt NegInf NegInf = False"
| "dlt NegInf b = True"
| "dlt (Fin x) NegInf = False"
| "dlt (Fin x) (Fin y) = (x < y)"
| "dlt (Fin x) PosInf = True"
| "dlt PosInf b = False"

fun deq :: "double \<Rightarrow> double \<Rightarrow> bool" where
  "deq NaN b = False"
| "deq a NaN = False"
| "deq a b = (a = b)"

definition dgt :: "double \<Rightarrow> double \<Rightarrow> bool" where
  "dgt a b = dlt b a"

definition dle :: "double \<Rightarrow> double \<Rightarrow> bool" where
  "dle a b = (dlt a b \<or> deq a b)"

definition dge :: "double \<Rightarrow> double \<Rightarrow> bool" where
  "dge a b = dle b a"

definition dne :: "double \<Rightarrow> double \<Rightarrow> bool" where
  "dne a b = (\<not> deq a b)"

text \<open>
  Rounding to binary64, to nearest with ties to even. \<open>rhe\<close> rounds a real to the
  nearest integer, a tie to the even one. \<open>round64_exp x e\<close> rounds \<open>x\<close> whose binary
  exponent is \<open>e\<close>: the spacing of the doubles around \<open>x\<close> is 2 to the power \<open>e - 52\<close>,
  and 2 to the power -1074 for the subnormal numbers, below the exponent -1022; a
  result of magnitude 2 to the power 1024 or more overflows to an infinity.
\<close>

definition rhe :: "real \<Rightarrow> int" where
  "rhe y =
     (let f = \<lfloor>y\<rfloor> in
      if y - of_int f < 1 / 2 then f
      else if 1 / 2 < y - of_int f then f + 1
      else if even f then f else f + 1)"

definition round64_exp :: "real \<Rightarrow> int \<Rightarrow> double" where
  "round64_exp x e0 =
     (let a = \<bar>x\<bar>;
          e = max (- 1022) e0;
          r = (if 52 \<le> e then of_int (rhe (a / 2 ^ nat (e - 52))) * 2 ^ nat (e - 52)
               else of_int (rhe (a * 2 ^ nat (52 - e))) / 2 ^ nat (52 - e))
      in if 2 ^ 1024 \<le> r then (if x < 0 then NegInf else PosInf)
         else Fin (if x < 0 then - r else r))"

definition round64 :: "real \<Rightarrow> double" where
  "round64 x = (if x = 0 then Fin 0 else round64_exp x \<lfloor>log 2 \<bar>x\<bar>\<rfloor>)"

text \<open>
  The arithmetic of binary64: the exact result, rounded. An operation with a NaN gives
  NaN; the operations on infinities are those of IEEE 754.
\<close>

fun dmul :: "double \<Rightarrow> double \<Rightarrow> double" where
  "dmul NaN b = NaN"
| "dmul a NaN = NaN"
| "dmul (Fin x) (Fin y) = round64 (x * y)"
| "dmul (Fin x) PosInf = (if x = 0 then NaN else if 0 < x then PosInf else NegInf)"
| "dmul (Fin x) NegInf = (if x = 0 then NaN else if 0 < x then NegInf else PosInf)"
| "dmul PosInf (Fin y) = (if y = 0 then NaN else if 0 < y then PosInf else NegInf)"
| "dmul NegInf (Fin y) = (if y = 0 then NaN else if 0 < y then NegInf else PosInf)"
| "dmul PosInf PosInf = PosInf"
| "dmul PosInf NegInf = NegInf"
| "dmul NegInf PosInf = NegInf"
| "dmul NegInf NegInf = PosInf"

fun dadd :: "double \<Rightarrow> double \<Rightarrow> double" where
  "dadd NaN b = NaN"
| "dadd a NaN = NaN"
| "dadd (Fin x) (Fin y) = round64 (x + y)"
| "dadd (Fin x) b = b"
| "dadd a (Fin y) = a"
| "dadd PosInf PosInf = PosInf"
| "dadd NegInf NegInf = NegInf"
| "dadd PosInf NegInf = NaN"
| "dadd NegInf PosInf = NaN"

fun dneg :: "double \<Rightarrow> double" where
  "dneg NaN = NaN"
| "dneg NegInf = PosInf"
| "dneg PosInf = NegInf"
| "dneg (Fin x) = Fin (- x)"

definition dsub :: "double \<Rightarrow> double \<Rightarrow> double" where
  "dsub a b = dadd a (dneg b)"

fun ddiv :: "double \<Rightarrow> double \<Rightarrow> double" where
  "ddiv NaN b = NaN"
| "ddiv a NaN = NaN"
| "ddiv (Fin x) (Fin y) =
     (if y = 0 then (if x = 0 then NaN else if 0 < x then PosInf else NegInf)
      else round64 (x / y))"
| "ddiv (Fin x) b = Fin 0"
| "ddiv PosInf (Fin y) = (if 0 \<le> y then PosInf else NegInf)"
| "ddiv NegInf (Fin y) = (if 0 \<le> y then NegInf else PosInf)"
| "ddiv a b = NaN"

text \<open>A decimal literal of the source is the double next to its value.\<close>

definition lit :: "real \<Rightarrow> double" where
  "lit x = round64 x"

text \<open>
  Modelled from the spec: the constants of NCDefs.hh are not among the sources. \<open>kPi\<close>
  is the binary64 value next to pi, 884279719003555 / 2^48, and the angle units are the
  spec's: \<open>deg\<close> is pi/180, \<open>arcmin\<close> pi/10800 and \<open>arcsec\<close> pi/648000, each computed in
  binary64 from \<open>kPi\<close>.
\<close>

definition kPi :: double where "kPi = Fin (884279719003555 / 281474976710656)"
definition kDeg :: double where "kDeg = ddiv kPi (Fin 180)"
definition kArcMin :: double where "kArcMin = ddiv kPi (Fin 10800)"
definition kArcSec :: double where "kArcSec = ddiv kPi (Fin 648000)"
definition kInfinity :: double where "kInfinity = PosInf"

section \<open>String utilities\<close>

text \<open>
  Modelled from the spec: NCString.cc is not among the sources. Each function follows
  the comment of its declaration in NCString.hh: \<open>trim\<close> strips the whitespace
  characters space, tab, carriage return and newline from both ends; \<open>split\<close> with a
  separator keeps empty parts as Python's \<open>str.split\<close> does and performs at most
  \<open>maxsplit\<close> splits when that is not 0; with separator 0 it splits on runs of
  whitespace and keeps no empty part (the sources call this form with \<open>maxsplit = 0\<close>
  only, and the model ignores \<open>maxsplit\<close> there).
\<close>

definition is_ws :: "char \<Rightarrow> bool" where
  "is_ws c = (c = CHR '' '' \<or> c = CHR 0x09 \<or> c = CHR 0x0D \<or> c = CHR 0x0A)"

definition trim :: "string \<Rightarrow> string" where
  "trim s = rev (dropWhile is_ws (rev (dropWhile is_ws s)))"

fun split_lim :: "nat option \<Rightarrow> char \<Rightarrow> string \<Rightarrow> string list" where
  "split_lim ms sep [] = [[]]"
| "split_lim ms sep (c # cs) =
     (if c = sep \<and> ms \<noteq> Some 0
      then [] # split_lim (map_option (\<lambda>k. k - 1) ms) sep cs
      else (case split_lim ms sep cs of
              p # ps \<Rightarrow> (c # p) # ps
            | [] \<Rightarrow> [[c]]))"

function split_ws :: "string \<Rightarrow> string list" where
  "split_ws [] = []"
| "split_ws (c # cs) =
     (if is_ws c then split_ws cs
      else takeWhile (\<lambda>x. \<not> is_ws x) (c # cs) # split_ws (dropWhile (\<lambda>x. \<not> is_ws x) cs))"
  by pat_completeness auto
termination
  by (relation "measure length") (auto simp: less_Suc_eq_le length_dropWhile_le)

definition split :: "string \<Rightarrow> nat \<Rightarrow> char \<Rightarrow> string list" where
  "split input maxsplit sep =
     (if sep = CHR 0x00 then split_ws input
      else split_lim (if maxsplit = 0 then None else Some maxsplit) sep input)"

definition contains :: "string \<Rightarrow> char \<Rightarrow> bool" where
  "contains haystack needle = (needle \<in> set haystack)"

definition contains_any :: "string \<Rightarrow> string \<Rightarrow> bool" where
  "contains_any haystack needles = list_ex (\<lambda>c. c \<in> set needles) haystack"

definition contains_only :: "string \<Rightarrow> string \<Rightarrow> bool" where
  "contains_only haystack needles = list_all (\<lambda>c. c \<in> set needles) haystack"

text \<open>
  All bytes in 32..126, plus the tab when \<open>allow_tab\<close>, plus line feed and carriage
  return when \<open>allow_newline\<close>.
\<close>

definition isSimpleASCII :: "string \<Rightarrow> bool \<Rightarrow> bool \<Rightarrow> bool" where
  "isSimpleASCII s allow_tab allow_newline =
     list_all (\<lambda>c. (32 \<le> (of_char c :: nat) \<and> (of_char c :: nat) \<le> 126)
                  \<or> (allow_tab \<and> c = CHR 0x09)
                  \<or> (allow_newline \<and> (c = CHR 0x0A \<or> c = CHR 0x0D))) s"

definition startswith :: "string \<Rightarrow> string \<Rightarrow> bool" where
  "startswith str substr = (take (length substr) str = substr)"

fun joinstr :: "string list \<Rightarrow> string \<Rightarrow> string" where
  "joinstr [] sep = []"
| "joinstr [p] sep = p"
| "joinstr (p # q # ps) sep = p @ sep @ joinstr (q # ps) sep"

text \<open>
  \<open>strreplace\<close> is called in the sources with one-character patterns only; the model
  replaces every occurrence of the character \<open>old\<close> by the string \<open>new\<close>.
\<close>

definition strreplace :: "string \<Rightarrow> char \<Rightarrow> string \<Rightarrow> string" where
  "strreplace str old new = concat (map (\<lambda>c. if c = old then new else [c]) str)"

text \<open>
  \<open>std::string::find\<close> for a pattern: the position of the first occurrence, \<open>None\<close> for
  \<open>npos\<close>.
\<close>

fun find_str :: "string \<Rightarrow> string \<Rightarrow> nat option" where
  "find_str [] pat = (if pat = [] then Some 0 else None)"
| "find_str (c # cs) pat =
     (if take (length pat) (c # cs) = pat then Some 0
      else map_option Suc (find_str cs pat))"

fun find_chr :: "string \<Rightarrow> char \<Rightarrow> nat option" where
  "find_chr [] ch = None"
| "find_chr (c # cs) ch = (if c = ch then Some 0 else map_option Suc (find_chr cs ch))"

definition basename :: "string \<Rightarrow> string" where
  "basename filename = rev (takeWhile (\<lambda>c. c \<noteq> CHR ''/'') (rev filename))"

definition getfileext :: "string \<Rightarrow> string" where
  "getfileext filename =
     (let bn = basename filename in
      if CHR ''.'' \<in> set bn then rev (takeWhile (\<lambda>c. c \<noteq> CHR ''.'') (rev bn)) else [])"

text \<open>
  What the sources use and do not define is taken as a parameter: the number parsers
  \<open>str2dbl\<close> and \<open>str2int\<close> of NCString.cc (they throw BadInput on a string that is not
  a number, here \<open>None\<close>), the validators of NCAtomUtils and NCMATData (they throw
  BadInput on invalid input, here \<open>False\<close>), and the formatting of a number by a C++
  output stream at a given precision.
\<close>

record ext =
  ext_str2dbl :: "string \<Rightarrow> double option"
  ext_str2int :: "string \<Rightarrow> int option"
  ext_validateAtomDBLine :: "string list \<Rightarrow> bool"
  ext_validateElementNameByVersion :: "string \<Rightarrow> nat \<Rightarrow> bool"
  ext_dbl2str :: "nat \<Rightarrow> double \<Rightarrow> string"
  ext_int2str :: "int \<Rightarrow> string"

definition str2dbl :: "ext \<Rightarrow> string \<Rightarrow> error + double" where
  "str2dbl E s =
     (case ext_str2dbl E s of
        None \<Rightarrow> Inl (BadInput ''Invalid number in string'')
      | Some d \<Rightarrow> Inr d)"

definition str2int :: "ext \<Rightarrow> string \<Rightarrow> error + int" where
  "str2int E s =
     (case ext_str2int E s of
        None \<Rightarrow> Inl (BadInput ''Invalid integer in string'')
      | Some i \<Rightarrow> Inr i)"

section \<open>The configuration store (NCMatCfg.cc)\<close>

subsection \<open>Parameter catalogue\<close>

datatype PARAMETERS =
    PAR_absnfactory | PAR_atomdb | PAR_coh_elas | PAR_dcutoff | PAR_dcutoffup
  | PAR_dir1 | PAR_dir2 | PAR_dirtol | PAR_incoh_elas | PAR_inelas | PAR_infofactory
  | PAR_lcaxis | PAR_lcmode | PAR_mos | PAR_mosprec | PAR_overridefileext
  | PAR_packfact | PAR_scatfactory | PAR_sccutoff | PAR_temp | PAR_vdoslux

text \<open>The parameters in the order of the enum, from \<open>PAR_FIRST\<close> up to \<open>PAR_NMAX\<close>.\<close>

definition all_pars :: "PARAMETERS list" where
  "all_pars =
     [PAR_absnfactory, PAR_atomdb, PAR_coh_elas, PAR_dcutoff, PAR_dcutoffup,
      PAR_dir1, PAR_dir2, PAR_dirtol, PAR_incoh_elas, PAR_inelas, PAR_infofactory,
      PAR_lcaxis, PAR_lcmode, PAR_mos, PAR_mosprec, PAR_overridefileext,
      PAR_packfact, PAR_scatfactory, PAR_sccutoff, PAR_temp, PAR_vdoslux]"

datatype VALTYPE =
    VALTYPE_DBL | VALTYPE_BOOL | VALTYPE_INT | VALTYPE_STR
  | VALTYPE_ORIENTDIR | VALTYPE_VECTOR | VALTYPE_ATOMDB

fun parnames :: "PARAMETERS \<Rightarrow> string" where
  "parnames PAR_absnfactory = ''absnfactory''"
| "parnames PAR_atomdb = ''atomdb''"
| "parnames PAR_coh_elas = ''coh_elas''"
| "parnames PAR_dcutoff = ''dcutoff''"
| "parnames PAR_dcutoffup = ''dcutoffup''"
| "parnames PAR_dir1 = ''dir1''"
| "parnames PAR_dir2 = ''dir2''"
| "parnames PAR_dirtol = ''dirtol''"
| "parnames PAR_incoh_elas = ''incoh_elas''"
| "parnames PAR_inelas = ''inelas''"
| "parnames PAR_infofactory = ''infofactory''"
| "parnames PAR_lcaxis = ''lcaxis''"
| "parnames PAR_lcmode = ''lcmode''"
| "parnames PAR_mos = ''mos''"
| "parnames PAR_mosprec = ''mosprec''"
| "parnames PAR_overridefileext = ''overridefileext''"
| "parnames PAR_packfact = ''packfact''"
| "parnames PAR_scatfactory = ''scatfactory''"
| "parnames PAR_sccutoff = ''sccutoff''"
| "parnames PAR_temp = ''temp''"
| "parnames PAR_vdoslux = ''vdoslux''"

fun partypes :: "PARAMETERS \<Rightarrow> VALTYPE" where
  "partypes PAR_absnfactory = VALTYPE_STR"
| "partypes PAR_atomdb = VALTYPE_ATOMDB"
| "partypes PAR_coh_elas = VALTYPE_BOOL"
| "partypes PAR_dcutoff = VALTYPE_DBL"
| "partypes PAR_dcutoffup = VALTYPE_DBL"
| "partypes PAR_dir1 = VALTYPE_ORIENTDIR"
| "partypes PAR_dir2 = VALTYPE_ORIENTDIR"
| "partypes PAR_dirtol = VALTYPE_DBL"
| "partypes PAR_incoh_elas = VALTYPE_BOOL"
| "partypes PAR_inelas = VALTYPE_STR"
| "partypes PAR_infofactory = VALTYPE_STR"
| "partypes PAR_lcaxis = VALTYPE_VECTOR"
| "partypes PAR_lcmode = VALTYPE_INT"
| "partypes PAR_mos = VALTYPE_DBL"
| "partypes PAR_mosprec = VALTYPE_DBL"
| "partypes PAR_overridefileext = VALTYPE_STR"
| "partypes PAR_packfact = VALTYPE_DBL"
| "partypes PAR_scatfactory = VALTYPE_STR"
| "partypes PAR_sccutoff = VALTYPE_DBL"
| "partypes PAR_temp = VALTYPE_DBL"
| "partypes PAR_vdoslux = VALTYPE_INT"

subsection \<open>Values\<close>

datatype UnitType = UnitNone | UnitAngle | UnitTemp | UnitLength

text \<open>
  The classes derived from \<open>ValBase\<close>, one constructor each, with their data members:
  \<open>ValDbl\<close> has \<open>value\<close>, \<open>unittype\<close> and \<open>origstrrep\<close>; \<open>ValAtomDB\<close> has \<open>value\<close> and
  \<open>value_as_string\<close>; \<open>ValOrientDir\<close> has \<open>crystal_is_hkl\<close>, \<open>crystal\<close>, \<open>lab\<close> and
  \<open>origstrrep\<close>; \<open>ValVector\<close> has \<open>val\<close> and \<open>origstrrep\<close>.
\<close>

datatype ValBase =
    ValDbl double UnitType string
  | ValInt int
  | ValBool bool
  | ValStr string
  | ValAtomDB "string list list" string
  | ValOrientDir bool "double \<times> double \<times> double" "double \<times> double \<times> double" string
  | ValVector "double \<times> double \<times> double" string

text \<open>
  \<open>MatCfg::Impl\<close>: the table \<open>m_parlist\<close> (a null pointer is \<open>None\<close>), the installed
  access spies (by identity), the data file members and the reference count of
  \<open>RCBase\<close>.
\<close>

record Impl =
  m_parlist :: "PARAMETERS \<Rightarrow> ValBase option"
  m_spies :: "nat list"
  m_datafile_resolved :: string
  m_datafile_orig :: string
  m_datafileext :: string
  m_ignoredfilecfg :: bool
  m_refCount :: nat

text \<open>
  \<open>Impl()\<close>: an empty table and a reference count of 0. The constructor leaves
  \<open>m_ignoredfilecfg\<close> to the \<open>MatCfg\<close> constructor, which sets it to false before any
  use.
\<close>

definition new_Impl :: Impl where
  "new_Impl = \<lparr> m_parlist = (\<lambda>p. None), m_spies = [], m_datafile_resolved = [],
                m_datafile_orig = [], m_datafileext = [], m_ignoredfilecfg = False,
                m_refCount = 0 \<rparr>"

definition ensureNoSpy :: "Impl \<Rightarrow> error + unit" where
  "ensureNoSpy I =
     (if m_spies I \<noteq> []
      then Inl (LogicError ''Modification of configuration object whose access is being monitored is forbidden!'')
      else Inr ())"

definition hasPar :: "Impl \<Rightarrow> PARAMETERS \<Rightarrow> bool" where
  "hasPar I par = (m_parlist I par \<noteq> None)"

text \<open>
  \<open>getVal\<close> at each value type: the stored value, or the code default. Reading notifies
  the access spies, which changes nothing in the table and is not modelled.
\<close>

definition getVal_dbl :: "Impl \<Rightarrow> PARAMETERS \<Rightarrow> double \<Rightarrow> double" where
  "getVal_dbl I par code_default_val =
     (case m_parlist I par of Some (ValDbl v ut os) \<Rightarrow> v | _ \<Rightarrow> code_default_val)"

definition getVal_int :: "Impl \<Rightarrow> PARAMETERS \<Rightarrow> int \<Rightarrow> int" where
  "getVal_int I par code_default_val =
     (case m_parlist I par of Some (ValInt v) \<Rightarrow> v | _ \<Rightarrow> code_default_val)"

definition getVal_bool :: "Impl \<Rightarrow> PARAMETERS \<Rightarrow> bool \<Rightarrow> bool" where
  "getVal_bool I par code_default_val =
     (case m_parlist I par of Some (ValBool v) \<Rightarrow> v | _ \<Rightarrow> code_default_val)"

definition getVal_str :: "Impl \<Rightarrow> PARAMETERS \<Rightarrow> string \<Rightarrow> string" where
  "getVal_str I par code_default_val =
     (case m_parlist I par of Some (ValStr v) \<Rightarrow> v | _ \<Rightarrow> code_default_val)"


definition get_temp :: "Impl \<Rightarrow> double" where
  "get_temp I = getVal_dbl I PAR_temp (Fin (-1))"
definition get_dcutoff :: "Impl \<Rightarrow> double" where
  "get_dcutoff I = getVal_dbl I PAR_dcutoff (Fin 0)"
definition get_dcutoffup :: "Impl \<Rightarrow> double" where
  "get_dcutoffup I = getVal_dbl I PAR_dcutoffup kInfinity"
definition get_packfact :: "Impl \<Rightarrow> double" where
  "get_packfact I = getVal_dbl I PAR_packfact (Fin 1)"
definition get_mosprec :: "Impl \<Rightarrow> double" where
  "get_mosprec I = getVal_dbl I PAR_mosprec (lit (1 / 1000))"
definition get_sccutoff :: "Impl \<Rightarrow> double" where
  "get_sccutoff I = getVal_dbl I PAR_sccutoff (lit (4 / 10))"
definition get_dirtol :: "Impl \<Rightarrow> double" where
  "get_dirtol I = getVal_dbl I PAR_dirtol (lit (1 / 10000))"
definition get_coh_elas :: "Impl \<Rightarrow> bool" where
  "get_coh_elas I = getVal_bool I PAR_coh_elas True"
definition get_incoh_elas :: "Impl \<Rightarrow> bool" where
  "get_incoh_elas I = getVal_bool I PAR_incoh_elas True"
definition get_inelas :: "Impl \<Rightarrow> string" where
  "get_inelas I =
     (let ss = getVal_str I PAR_inelas ''auto'' in
      if ss = ''none'' \<or> ss = ''0'' \<or> ss = ''sterile'' \<or> ss = ''false'' then ''none'' else ss)"
definition get_overridefileext :: "Impl \<Rightarrow> string" where
  "get_overridefileext I = getVal_str I PAR_overridefileext []"
definition get_infofactory :: "Impl \<Rightarrow> string" where
  "get_infofactory I = getVal_str I PAR_infofactory []"
definition get_scatfactory :: "Impl \<Rightarrow> string" where
  "get_scatfactory I = getVal_str I PAR_scatfactory []"
definition get_absnfactory :: "Impl \<Rightarrow> string" where
  "get_absnfactory I = getVal_str I PAR_absnfactory []"
definition get_lcmode :: "Impl \<Rightarrow> int" where
  "get_lcmode I = getVal_int I PAR_lcmode 0"
definition get_vdoslux :: "Impl \<Rightarrow> int" where
  "get_vdoslux I = getVal_int I PAR_vdoslux 3"
definition get_atomdb :: "Impl \<Rightarrow> string" where
  "get_atomdb I = (case m_parlist I PAR_atomdb of Some (ValAtomDB v vs) \<Rightarrow> vs | _ \<Rightarrow> [])"
definition get_atomdb_parsed :: "Impl \<Rightarrow> string list list" where
  "get_atomdb_parsed I = (case m_parlist I PAR_atomdb of Some (ValAtomDB v vs) \<Rightarrow> v | _ \<Rightarrow> [])"

subsection \<open>Setting values\<close>

text \<open>
  A function that the source lets throw after it has changed an object returns here the
  error, if any, together with the object as the call leaves it: \<open>None\<close> in the first
  component is a normal return.
\<close>

fun addUnitsForValType :: "PARAMETERS \<Rightarrow> UnitType" where
  "addUnitsForValType PAR_mos = UnitAngle"
| "addUnitsForValType PAR_dirtol = UnitAngle"
| "addUnitsForValType PAR_temp = UnitTemp"
| "addUnitsForValType PAR_dcutoff = UnitLength"
| "addUnitsForValType PAR_dcutoffup = UnitLength"
| "addUnitsForValType par = UnitNone"

text \<open>
  \<open>std::make_unique<ValType>()\<close> followed by \<open>addUnitsForValType\<close>. The constructors leave
  the numeric and boolean members indeterminate; the model puts 0 and false there. They
  can be read only from an entry that was created by a call whose \<open>set\<close> then threw.
\<close>

fun new_Val :: "VALTYPE \<Rightarrow> PARAMETERS \<Rightarrow> ValBase" where
  "new_Val VALTYPE_DBL par = ValDbl (Fin 0) (addUnitsForValType par) []"
| "new_Val VALTYPE_INT par = ValInt 0"
| "new_Val VALTYPE_BOOL par = ValBool False"
| "new_Val VALTYPE_STR par = ValStr []"
| "new_Val VALTYPE_ATOMDB par = ValAtomDB [] []"
| "new_Val VALTYPE_ORIENTDIR par = ValOrientDir False (Fin 0, Fin 0, Fin 0) (Fin 0, Fin 0, Fin 0) []"
| "new_Val VALTYPE_VECTOR par = ValVector (Fin 0, Fin 0, Fin 0) []"

definition update_par :: "Impl \<Rightarrow> PARAMETERS \<Rightarrow> ValBase \<Rightarrow> Impl" where
  "update_par I par vb = I\<lparr> m_parlist := (m_parlist I)(par \<mapsto> vb) \<rparr>"

text \<open>
  \<open>getValTypeForSet\<close>: refuses when spies are installed; otherwise hands out the entry
  of the table, after storing a new one there if the parameter had none. The result is
  the object with the entry in place, and the entry.
\<close>

definition getValTypeForSet :: "VALTYPE \<Rightarrow> Impl \<Rightarrow> PARAMETERS \<Rightarrow> error + Impl \<times> ValBase" where
  "getValTypeForSet vt I par =
     (case ensureNoSpy I of
        Inl e \<Rightarrow> Inl e
      | Inr u \<Rightarrow>
          (case m_parlist I par of
             Some vb \<Rightarrow> Inr (I, vb)
           | None \<Rightarrow> Inr (update_par I par (new_Val vt par), new_Val vt par)))"

fun unittype :: "ValBase \<Rightarrow> UnitType" where
  "unittype (ValDbl v ut os) = ut"
| "unittype vb = UnitNone"

definition alpha :: string where
  "alpha = ''abcdefghijklmnopqrstuvwxyzABCDEFGHIJKLMNOPQRSTUVWXYZ''"

text \<open>
  The \<open>switch\<close> of \<open>ValDbl::set_from_strrep\<close>: the factor \<open>u\<close> and the offset
  \<open>unitoffset\<close> of a unit, with \<open>u = -1.0\<close> for a unit the type does not know. The
  constants are those of the source, computed in binary64: \<open>1/1.8\<close> and
  \<open>273.15-(32/1.8)\<close> for \<open>F\<close>.
\<close>

definition unit_switch :: "UnitType \<Rightarrow> string \<Rightarrow> double \<times> double" where
  "unit_switch ut unit =
     (case ut of
        UnitAngle \<Rightarrow>
          (if unit = ''rad'' then (Fin 1, Fin 0)
           else if unit = ''deg'' then (kDeg, Fin 0)
           else if unit = ''arcmin'' then (kArcMin, Fin 0)
           else if unit = ''arcsec'' then (kArcSec, Fin 0)
           else (Fin (- 1), Fin 0))
      | UnitLength \<Rightarrow>
          (if unit = ''Aa'' then (Fin 1, Fin 0)
           else if unit = ''nm'' then (Fin 10, Fin 0)
           else if unit = ''mm'' then (Fin 10000000, Fin 0)
           else if unit = ''cm'' then (Fin 100000000, Fin 0)
           else if unit = ''m'' then (Fin 10000000000, Fin 0)
           else (Fin (- 1), Fin 0))
      | UnitTemp \<Rightarrow>
          (if unit = ''K'' then (Fin 1, Fin 0)
           else if unit = ''C'' then (Fin 1, lit (27315 / 100))
           else if unit = ''F''
           then (ddiv (Fin 1) (lit (18 / 10)),
                 dsub (lit (27315 / 100)) (ddiv (Fin 32) (lit (18 / 10))))
           else (Fin (- 1), Fin 0))
      | UnitNone \<Rightarrow> (Fin (- 1), Fin 0))"

fun set_origstrrep :: "ValBase \<Rightarrow> string \<Rightarrow> ValBase" where
  "set_origstrrep (ValDbl v ut os) r = ValDbl v ut r"
| "set_origstrrep (ValOrientDir h c l os) r = ValOrientDir h c l r"
| "set_origstrrep (ValVector v os) r = ValVector v r"
| "set_origstrrep vb r = vb"

definition ValDbl_set :: "ValBase \<Rightarrow> double \<Rightarrow> error option \<times> ValBase" where
  "ValDbl_set vb v =
     (if ncisnan v then (Some (BadInput ''Attempting to set number to NaN''), vb)
      else (None, ValDbl v (unittype vb) []))"

text \<open>
  \<open>ValDbl::set_from_strrep\<close>. The \<open>while\<close> loop walks \<open>iunit\<close> back over the trailing
  letters of \<open>tmp\<close>: \<open>unit\<close> is the longest suffix of letters and \<open>tmp\<close> is cut before
  it. The unit is checked before the number is parsed, and the value set is
  \<open>unitoffset + unitfact * str2dbl(tmp)\<close>. Without a unit the factor is 1.0 and the
  offset 0.0.
\<close>

definition ValDbl_set_from_strrep :: "ext \<Rightarrow> ValBase \<Rightarrow> string \<Rightarrow> error option \<times> ValBase" where
  "ValDbl_set_from_strrep E vb s =
     (let tmp = trim s in
      if unittype vb \<noteq> UnitNone \<and> 1 < length tmp \<and> contains alpha (last tmp)
      then
        (let unit = rev (takeWhile (\<lambda>c. contains alpha c) (rev tmp));
             tmp2 = trim (rev (dropWhile (\<lambda>c. contains alpha c) (rev tmp)));
             tmporig = tmp2 @ unit;
             (u, unitoffset) = unit_switch (unittype vb) unit
         in if dle u (Fin 0) then (Some (BadInput ''Invalid unit: ''), vb)
            else
              (case str2dbl E tmp2 of
                 Inl e \<Rightarrow> (Some e, vb)
               | Inr x \<Rightarrow>
                   (case ValDbl_set vb (dadd unitoffset (dmul u x)) of
                      (Some e, vb2) \<Rightarrow> (Some e, vb2)
                    | (None, vb2) \<Rightarrow> (None, set_origstrrep vb2 (trim tmporig)))))
      else
        (case str2dbl E tmp of
           Inl e \<Rightarrow> (Some e, vb)
         | Inr x \<Rightarrow>
             (case ValDbl_set vb (dadd (Fin 0) (dmul (Fin 1) x)) of
                (Some e, vb2) \<Rightarrow> (Some e, vb2)
              | (None, vb2) \<Rightarrow> (None, set_origstrrep vb2 (trim s)))))"

definition ValInt_set_from_strrep :: "ext \<Rightarrow> ValBase \<Rightarrow> string \<Rightarrow> error option \<times> ValBase" where
  "ValInt_set_from_strrep E vb s =
     (case str2int E s of Inl e \<Rightarrow> (Some e, vb) | Inr i \<Rightarrow> (None, ValInt i))"

definition ValBool_set_from_strrep :: "ValBase \<Rightarrow> string \<Rightarrow> error option \<times> ValBase" where
  "ValBool_set_from_strrep vb s =
     (if s = ''true'' \<or> s = ''1'' then (None, ValBool True)
      else if s = ''false'' \<or> s = ''0'' then (None, ValBool False)
      else (Some (BadInput ''Could not convert to boolean value''), vb))"

text \<open>The macro \<open>NCMATCFG_FORBIDDEN_CHARS\<close>: the two quote characters, then \<open>|><(){}[]\<close>.\<close>

definition NCMATCFG_FORBIDDEN_CHARS :: string where
  "NCMATCFG_FORBIDDEN_CHARS = [CHR 0x22, CHR 0x27] @ ''|><(){}[]''"

definition ValStr_set :: "ValBase \<Rightarrow> string \<Rightarrow> error option \<times> ValBase" where
  "ValStr_set vb s =
     (if \<not> isSimpleASCII s False False
      then (Some (BadInput ''Non-ASCII characters or tab/newlines in string value!''), vb)
      else if contains_any s NCMATCFG_FORBIDDEN_CHARS \<or> contains_any s ''=;''
      then (Some (BadInput ''Forbidden characters in string value!''), vb)
      else (None, ValStr s))"

fun atomdb_check_words :: "string list \<Rightarrow> error + unit" where
  "atomdb_check_words [] = Inr ()"
| "atomdb_check_words (word # ws) =
     (if \<not> isSimpleASCII word False False
      then Inl (BadInput ''Non-ASCII characters or tab/newlines in atomdb parameter!'')
      else if contains_any word NCMATCFG_FORBIDDEN_CHARS \<or> contains_any word ''=;''
      then Inl (BadInput ''Forbidden characters in atomdb parameter!'')
      else atomdb_check_words ws)"

text \<open>
  The loop of \<open>ValAtomDB::set\<close> over the lines, with the counter \<open>iline\<close> and the lines
  stored so far in \<open>value\<close>; when a line is refused, the lines stored before it stay in
  \<open>value\<close>.
\<close>

fun ValAtomDB_set_lines ::
  "ext \<Rightarrow> string list list \<Rightarrow> nat \<Rightarrow> string list list \<Rightarrow> error option \<times> string list list" where
  "ValAtomDB_set_lines E [] iline val = (None, val)"
| "ValAtomDB_set_lines E (line # rest) iline val =
     (if line = [] then ValAtomDB_set_lines E rest iline val
      else
        (case atomdb_check_words line of
           Inl e \<Rightarrow> (Some e, val)
         | Inr u \<Rightarrow>
             if \<not> ext_validateAtomDBLine E line
             then (Some (BadInput ''Invalid entry in atomdb cfg parameter in the line''), val)
             else if length line = 1 \<and> line ! 0 = ''nodefaults'' \<and> 0 < iline
             then (Some (BadInput ''Invalid entry in atomdb cfg parameter (nodefaults must be the first line)''), val)
             else ValAtomDB_set_lines E rest (iline + 1) (val @ [line])))"

definition to_strrep_impl :: "string list list \<Rightarrow> string" where
  "to_strrep_impl val = joinstr (map (\<lambda>line. joinstr line '':'') val) ''@''"

fun value_as_string_of :: "ValBase \<Rightarrow> string" where
  "value_as_string_of (ValAtomDB v vs) = vs"
| "value_as_string_of vb = []"

text \<open>
  \<open>ValAtomDB::set\<close> clears \<open>value\<close>, fills it line by line and sets \<open>value_as_string\<close> at
  the end; when it throws, \<open>value_as_string\<close> is still the old one.
\<close>

definition ValAtomDB_set :: "ext \<Rightarrow> ValBase \<Rightarrow> string list list \<Rightarrow> error option \<times> ValBase" where
  "ValAtomDB_set E vb s =
     (case ValAtomDB_set_lines E s 0 [] of
        (Some e, val) \<Rightarrow> (Some e, ValAtomDB val (value_as_string_of vb))
      | (None, val) \<Rightarrow> (None, ValAtomDB val (to_strrep_impl val)))"

definition ValAtomDB_set_from_strrep :: "ext \<Rightarrow> ValBase \<Rightarrow> string \<Rightarrow> error option \<times> ValBase" where
  "ValAtomDB_set_from_strrep E vb s =
     ValAtomDB_set E vb
       (map (\<lambda>line. split (strreplace line (CHR '':'') '' '') 0 (CHR 0x00))
            (split s 0 (CHR ''@'')))"

text \<open>Three numbers parsed in turn; the first failure is the error.\<close>

definition str2dbl3 :: "ext \<Rightarrow> string \<Rightarrow> string \<Rightarrow> string \<Rightarrow> error + double \<times> double \<times> double" where
  "str2dbl3 E a b c =
     (case str2dbl E a of
        Inl e \<Rightarrow> Inl e
      | Inr x \<Rightarrow>
          (case str2dbl E b of
             Inl e \<Rightarrow> Inl e
           | Inr y \<Rightarrow> (case str2dbl E c of Inl e \<Rightarrow> Inl e | Inr z \<Rightarrow> Inr (x, y, z))))"

definition isnan3 :: "double \<times> double \<times> double \<Rightarrow> bool" where
  "isnan3 v = (case v of (x, y, z) \<Rightarrow> ncisnan x \<or> ncisnan y \<or> ncisnan z)"

definition ValOrientDir_set ::
  "ValBase \<Rightarrow> bool \<Rightarrow> double \<times> double \<times> double \<Rightarrow> double \<times> double \<times> double
     \<Rightarrow> error option \<times> ValBase" where
  "ValOrientDir_set vb cishkl c l =
     (if isnan3 c \<or> isnan3 l then (Some (BadInput ''Attempting to set number to NaN''), vb)
      else (None, ValOrientDir cishkl c l []))"

definition ValOrientDir_set_from_strrep :: "ext \<Rightarrow> ValBase \<Rightarrow> string \<Rightarrow> error option \<times> ValBase" where
  "ValOrientDir_set_from_strrep E vb s =
     (case split (trim s) 0 (CHR ''@'') of
        [p0, c, l] \<Rightarrow>
          if p0 \<noteq> [] then (Some (BadInput ''Bad syntax for orientation''), vb)
          else
            (let c_is_hkl = (if startswith c ''crys:'' then (0::int)
                             else if startswith c ''crys_hkl:'' then 1 else -1);
                 c2 = (if startswith c ''crys:'' then drop 5 c
                       else if startswith c ''crys_hkl:'' then drop 9 c else c)
             in if c_is_hkl = -1 \<or> \<not> startswith l ''lab:''
                then (Some (BadInput ''Bad syntax for orientation''), vb)
                else
                  (case (split (trim c2) 0 (CHR '',''), split (trim (drop 4 l)) 0 (CHR '','')) of
                     ([c0, c1, c2'], [l0, l1, l2]) \<Rightarrow>
                       (case str2dbl3 E c0 c1 c2' of
                          Inl e \<Rightarrow> (Some e, vb)
                        | Inr cv \<Rightarrow>
                            (case str2dbl3 E l0 l1 l2 of
                               Inl e \<Rightarrow> (Some e, vb)
                             | Inr lv \<Rightarrow>
                                 (case ValOrientDir_set vb (c_is_hkl = 1) cv lv of
                                    (Some e, vb2) \<Rightarrow> (Some e, vb2)
                                  | (None, vb2) \<Rightarrow> (None, set_origstrrep vb2 (trim s)))))
                   | _ \<Rightarrow> (Some (BadInput ''Bad syntax for orientation''), vb)))
      | _ \<Rightarrow> (Some (BadInput ''Bad syntax for orientation''), vb))"

definition ValVector_set :: "ValBase \<Rightarrow> double \<times> double \<times> double \<Rightarrow> error option \<times> ValBase" where
  "ValVector_set vb v =
     (if isnan3 v then (Some (BadInput ''Attempting to set number to NaN''), vb)
      else (None, ValVector v []))"

definition ValVector_set_from_strrep :: "ext \<Rightarrow> ValBase \<Rightarrow> string \<Rightarrow> error option \<times> ValBase" where
  "ValVector_set_from_strrep E vb s =
     (case split (trim s) 0 (CHR '','') of
        [p0, p1, p2] \<Rightarrow>
          (case str2dbl3 E (trim p0) (trim p1) (trim p2) of
             Inl e \<Rightarrow> (Some e, vb)
           | Inr v \<Rightarrow>
               (case ValVector_set vb v of
                  (Some e, vb2) \<Rightarrow> (Some e, vb2)
                | (None, vb2) \<Rightarrow> (None, set_origstrrep vb2 (trim s))))
      | _ \<Rightarrow> (Some (BadInput ''Bad syntax for vector value''), vb))"

text \<open>The virtual \<open>set_from_strrep\<close>, dispatched on the class of the entry.\<close>

fun set_from_strrep :: "ext \<Rightarrow> VALTYPE \<Rightarrow> ValBase \<Rightarrow> string \<Rightarrow> error option \<times> ValBase" where
  "set_from_strrep E VALTYPE_DBL vb s = ValDbl_set_from_strrep E vb s"
| "set_from_strrep E VALTYPE_INT vb s = ValInt_set_from_strrep E vb s"
| "set_from_strrep E VALTYPE_BOOL vb s = ValBool_set_from_strrep vb s"
| "set_from_strrep E VALTYPE_STR vb s = ValStr_set vb s"
| "set_from_strrep E VALTYPE_ORIENTDIR vb s = ValOrientDir_set_from_strrep E vb s"
| "set_from_strrep E VALTYPE_VECTOR vb s = ValVector_set_from_strrep E vb s"
| "set_from_strrep E VALTYPE_ATOMDB vb s = ValAtomDB_set_from_strrep E vb s"

text \<open>
  \<open>setVal\<close> at each value type: \<open>getValTypeForSet\<close>, then \<open>set\<close> on the entry it hands
  out.
\<close>

definition setVal_dbl :: "Impl \<Rightarrow> PARAMETERS \<Rightarrow> double \<Rightarrow> error option \<times> Impl" where
  "setVal_dbl I par v =
     (case getValTypeForSet VALTYPE_DBL I par of
        Inl e \<Rightarrow> (Some e, I)
      | Inr (I1, vb) \<Rightarrow> (case ValDbl_set vb v of (eo, vb2) \<Rightarrow> (eo, update_par I1 par vb2)))"

definition setVal_bool :: "Impl \<Rightarrow> PARAMETERS \<Rightarrow> bool \<Rightarrow> error option \<times> Impl" where
  "setVal_bool I par v =
     (case getValTypeForSet VALTYPE_BOOL I par of
        Inl e \<Rightarrow> (Some e, I)
      | Inr (I1, vb) \<Rightarrow> (None, update_par I1 par (ValBool v)))"

definition setVal_int :: "Impl \<Rightarrow> PARAMETERS \<Rightarrow> int \<Rightarrow> error option \<times> Impl" where
  "setVal_int I par v =
     (case getValTypeForSet VALTYPE_INT I par of
        Inl e \<Rightarrow> (Some e, I)
      | Inr (I1, vb) \<Rightarrow> (None, update_par I1 par (ValInt v)))"

definition setVal_str :: "Impl \<Rightarrow> PARAMETERS \<Rightarrow> string \<Rightarrow> error option \<times> Impl" where
  "setVal_str I par v =
     (case getValTypeForSet VALTYPE_STR I par of
        Inl e \<Rightarrow> (Some e, I)
      | Inr (I1, vb) \<Rightarrow> (case ValStr_set vb v of (eo, vb2) \<Rightarrow> (eo, update_par I1 par vb2)))"

text \<open>
  \<open>strNameToParIdx\<close>: \<open>std::lower_bound\<close> on the sorted array \<open>parnames\<close> followed by the
  test \<open>*it != name\<close> finds the parameter of that name, if there is one.
\<close>

definition strNameToParIdx :: "string \<Rightarrow> error + PARAMETERS" where
  "strNameToParIdx name =
     (case find (\<lambda>p. parnames p = name) all_pars of
        None \<Rightarrow> Inl (BadInput ''Unknown parameter: '')
      | Some p \<Rightarrow> Inr p)"

definition setValByStr_par :: "ext \<Rightarrow> string \<Rightarrow> string \<Rightarrow> Impl \<Rightarrow> error option \<times> Impl" where
  "setValByStr_par E name val I =
     (case strNameToParIdx name of
        Inl e \<Rightarrow> (Some e, I)
      | Inr paridx \<Rightarrow>
          if val = [] \<and> partypes paridx \<noteq> VALTYPE_STR
          then (Some (BadInput ''Missing parameter value for parameter''), I)
          else
            (case getValTypeForSet (partypes paridx) I paridx of
               Inl e \<Rightarrow> (Some e, I)
             | Inr (I1, vb) \<Rightarrow>
                 (case set_from_strrep E (partypes paridx) vb val of
                    (eo, vb2) \<Rightarrow> (eo, update_par I1 paridx vb2))))"

text \<open>
  \<open>Impl::setValByStr\<close>: the pseudo-parameters \<open>bragg\<close>, \<open>elas\<close> and \<open>bkgd\<close> first, then the
  parameter of the given name (\<open>setValByStr_par\<close> is the rest of the function body).
  For \<open>elas\<close> the value is parsed into a temporary \<open>ValBool\<close>.
\<close>

definition setValByStr :: "ext \<Rightarrow> string \<Rightarrow> string \<Rightarrow> Impl \<Rightarrow> error option \<times> Impl" where
  "setValByStr E name val I =
     (if name = ''bragg'' then setValByStr_par E ''coh_elas'' val I
      else if name = ''elas'' then
        (case ValBool_set_from_strrep (ValBool False) val of
           (Some e, tmp) \<Rightarrow> (Some e, I)
         | (None, tmp) \<Rightarrow>
             (case setVal_bool I PAR_coh_elas (tmp = ValBool True) of
                (Some e, I2) \<Rightarrow> (Some e, I2)
              | (None, I2) \<Rightarrow> setVal_bool I2 PAR_incoh_elas (tmp = ValBool True)))
      else if name = ''bkgd'' then
        (if val = ''none'' \<or> val = ''0'' then
           (case setVal_bool I PAR_incoh_elas False of
              (Some e, I2) \<Rightarrow> (Some e, I2)
            | (None, I2) \<Rightarrow> setVal_str I2 PAR_inelas ''none'')
         else (Some (BadInput ''The bkgd parameter is obsolete and is available for backwards compatibility only with the values 0 or none.''), I))
      else setValByStr_par E name val I)"

subsection \<open>Serialisation\<close>

text \<open>
  The virtual \<open>to_strrep\<close>. A stream prints a double at precision 6 unless
  \<open>setprecision\<close> or \<open>precision\<close> was called on it.
\<close>

fun to_strrep :: "ext \<Rightarrow> ValBase \<Rightarrow> bool \<Rightarrow> string" where
  "to_strrep E (ValDbl v ut origstrrep) forcache =
     (if \<not> forcache \<and> origstrrep \<noteq> [] then origstrrep
      else ext_dbl2str E (if forcache then 16 else 6) v)"
| "to_strrep E (ValInt v) forcache = ext_int2str E v"
| "to_strrep E (ValBool v) forcache = (if v then ''true'' else ''false'')"
| "to_strrep E (ValStr v) forcache = v"
| "to_strrep E (ValAtomDB v value_as_string) forcache = value_as_string"
| "to_strrep E (ValOrientDir crystal_is_hkl (c0, c1, c2) (l0, l1, l2) origstrrep) forcache =
     (if origstrrep \<noteq> [] then origstrrep
      else (if crystal_is_hkl then ''@crys_hkl:'' else ''@crys:'')
           @ ext_dbl2str E 17 c0 @ '','' @ ext_dbl2str E 17 c1 @ '','' @ ext_dbl2str E 17 c2
           @ ''@lab:'' @ ext_dbl2str E 17 l0 @ '','' @ ext_dbl2str E 17 l1 @ '',''
           @ ext_dbl2str E 17 l2)"
| "to_strrep E (ValVector (x, y, z) origstrrep) forcache =
     (if origstrrep \<noteq> [] then origstrrep
      else ext_dbl2str E 17 x @ '','' @ ext_dbl2str E 17 y @ '','' @ ext_dbl2str E 17 z)"

definition getDataFileAsSpecified :: "Impl \<Rightarrow> string" where
  "getDataFileAsSpecified I =
     (if m_datafile_orig I = [] then m_datafile_resolved I else m_datafile_orig I)"

text \<open>
  The loop of \<open>toStrCfg\<close> over the parameters in enum order, with the output so far and
  the flag \<open>empty\<close> (here \<open>isempty\<close>); \<open>only_parnames\<close> is \<open>None\<close> for the null pointer.
\<close>

fun toStrCfg_loop ::
  "ext \<Rightarrow> Impl \<Rightarrow> string list option \<Rightarrow> PARAMETERS list \<Rightarrow> string \<Rightarrow> bool \<Rightarrow> string" where
  "toStrCfg_loop E I only_parnames [] out isempty = out"
| "toStrCfg_loop E I only_parnames (i # rest) out isempty =
     (case m_parlist I i of
        None \<Rightarrow> toStrCfg_loop E I only_parnames rest out isempty
      | Some vb \<Rightarrow>
          (case only_parnames of
             Some names \<Rightarrow>
               if parnames i \<in> set names
               then toStrCfg_loop E I only_parnames rest
                      (out @ (if \<not> isempty then '';'' else []) @ parnames i @ ''='' @ to_strrep E vb False)
                      False
               else toStrCfg_loop E I only_parnames rest out isempty
           | None \<Rightarrow>
               toStrCfg_loop E I only_parnames rest
                 (out @ (if \<not> isempty then '';'' else []) @ parnames i @ ''='' @ to_strrep E vb False)
                 False))"

definition toStrCfg :: "ext \<Rightarrow> Impl \<Rightarrow> bool \<Rightarrow> string list option \<Rightarrow> string" where
  "toStrCfg E I include_datafile only_parnames =
     (let out = (if include_datafile
                 then getDataFileAsSpecified I @ (if m_ignoredfilecfg I then '';ignorefilecfg'' else [])
                 else [])
      in toStrCfg_loop E I only_parnames all_pars out (out = []))"

text \<open>
  \<open>getCacheSignature\<close>: \<open>pns\<close> is the \<open>std::set\<close> of names in its iteration order; the
  flag \<open>first\<close> is \<open>it == itB\<close>.
\<close>

fun getCacheSignature_loop :: "ext \<Rightarrow> Impl \<Rightarrow> string list \<Rightarrow> bool \<Rightarrow> string \<Rightarrow> error + string" where
  "getCacheSignature_loop E I [] first s = Inr s"
| "getCacheSignature_loop E I (name # rest) first s =
     (case strNameToParIdx name of
        Inl e \<Rightarrow> Inl e
      | Inr paridx \<Rightarrow>
          getCacheSignature_loop E I rest False
            (s @ (if \<not> first then '';'' else []) @ name @ ''=''
               @ (case m_parlist I paridx of
                    Some vb \<Rightarrow> to_strrep E vb True
                  | None \<Rightarrow> ''<>'')))"

definition getCacheSignature :: "ext \<Rightarrow> Impl \<Rightarrow> string list \<Rightarrow> error + string" where
  "getCacheSignature E I pns = getCacheSignature_loop E I pns True []"

subsection \<open>Consistency checks\<close>

text \<open>
  Modelled from the spec: \<open>valueInInterval\<close> of NCMath.hh is not among the sources; it
  is taken to test \<open>a \<le> x \<le> b\<close>.
\<close>

definition valueInInterval :: "double \<Rightarrow> double \<Rightarrow> double \<Rightarrow> bool" where
  "valueInInterval a b x = (dle a x \<and> dle x b)"

text \<open>
  The range checks that open \<open>MatCfg::checkConsistency\<close>, in the order of the source,
  from the check of \<open>temp\<close> to the check of \<open>mosprec\<close>. The checks of the factory names,
  of the orientation, of \<open>lcaxis\<close> and of \<open>vdoslux\<close> come after them in the source and
  are not part of this function: \<open>Inr ()\<close> says that none of the range checks throws.
\<close>

definition checkConsistency_ranges :: "Impl \<Rightarrow> error + unit" where
  "checkConsistency_ranges I =
     (let parval_temp = get_temp I;
          parval_dcutoff = get_dcutoff I;
          parval_dcutoffup = get_dcutoffup I;
          parval_packfact = get_packfact I;
          parval_dirtol = get_dirtol I;
          parval_sccutoff = get_sccutoff I
      in
      if dne parval_temp (Fin (-1)) \<and> (dlt parval_temp (Fin 0) \<or> dgt parval_temp (Fin 100000))
      then Inl (BadInput ''temp must be -1.0 or in the range (0.0,1e5]'')
      else if dne parval_dcutoff (Fin (-1)) \<and> dlt parval_dcutoff (Fin 0)
      then Inl (BadInput ''dcutoff must be -1.0 or >=0.0'')
      else if dne parval_dcutoff (Fin (-1)) \<and> dge parval_dcutoff parval_dcutoffup
      then Inl (BadInput ''dcutoff must be less than dcutoffup'')
      else if dne parval_dcutoff (Fin (-1))
              \<and> \<not> (dge parval_dcutoff (lit (1 / 1000)) \<and> dle parval_dcutoff (Fin 100000))
              \<and> dne parval_dcutoff (Fin 0)
      then Inl (BadInput ''dcutoff must be -1 (hkl lists disabled), 0 (for automatic selection), or in range [1e-3,1e5]'')
      else if dle parval_packfact (Fin 0) \<or> dgt parval_packfact (Fin 1)
      then Inl (BadInput ''packfact must be in range (0.0,1.0]'')
      else if dlt parval_sccutoff (Fin 0)
      then Inl (BadInput ''sccutoff must be >=0.0'')
      else if dle parval_dirtol (Fin 0) \<or> dgt parval_dirtol kPi
      then Inl (BadInput ''dirtol must be in range (0.0,pi]'')
      else if \<not> valueInInterval (lit (9999 / 100000000000)) (lit (10000001 / 100000000)) (get_mosprec I)
      then Inl (BadInput ''mosprec must be in the range [1e-7,1e-1].'')
      else Inr ())"

subsection \<open>Parameter strings\<close>

text \<open>
  The body of the loop of \<open>MatCfg::applyStrCfg\<close> up to the call of \<open>cow\<close>: a part is
  trimmed; an empty part is skipped (\<open>None\<close>); any other part must split at \<open>=\<close> into
  exactly a name and a value, which are trimmed.
\<close>

definition applyStrCfg_part :: "string \<Rightarrow> error + (string \<times> string) option" where
  "applyStrCfg_part part0 =
     (let part = trim part0 in
      if part = [] then Inr None
      else if part = ''ignorefilecfg''
      then Inl (BadInput ''The ignorefilecfg keyword can only be used in the MatCfg constructor (and only directly after the filename)'')
      else
        (case split part 0 (CHR ''='') of
           [p, v] \<Rightarrow>
             if trim p = [] then Inl (BadInput ''Missing parameter name'')
             else Inr (Some (trim p, trim v))
         | _ \<Rightarrow> Inl (BadInput ''Bad syntax in parameter specification: '')))"

text \<open>
  The two checks on the whole string that \<open>applyStrCfg\<close> makes before it splits it.
\<close>

definition applyStrCfg_check :: "string \<Rightarrow> error + unit" where
  "applyStrCfg_check str =
     (if \<not> isSimpleASCII str True True
      then Inl (BadInput ''Non-ASCII characters in parameter specification!'')
      else if contains_any str NCMATCFG_FORBIDDEN_CHARS
      then Inl (BadInput ''Forbidden characters in parameter specification!'')
      else Inr ())"

subsection \<open>Handles, reference counts and copy-on-write\<close>

text \<open>
  The heap of \<open>Impl\<close> objects: an address is an index, \<open>None\<close> a deleted object. A
  \<open>MatCfg\<close> is its pointer \<open>m_impl\<close>, an address. A handle of the source always points to
  a live object; for an address that does not, the model returns a LogicError where the
  source has no defined behaviour.
\<close>

type_synonym store = "Impl option list"

definition impl_at :: "store \<Rightarrow> nat \<Rightarrow> Impl option" where
  "impl_at st h = (if h < length st then st ! h else None)"

text \<open>
  The copy constructor \<open>Impl(const Impl&)\<close>: refuses when the original has spies, then
  clones the table and copies the data file members; the copy has no spies and a
  reference count of 0.
\<close>

definition clone :: "Impl \<Rightarrow> error + Impl" where
  "clone orig =
     (case ensureNoSpy orig of
        Inl e \<Rightarrow> Inl e
      | Inr u \<Rightarrow>
          Inr \<lparr> m_parlist = m_parlist orig, m_spies = [],
                m_datafile_resolved = m_datafile_resolved orig,
                m_datafile_orig = m_datafile_orig orig,
                m_datafileext = m_datafileext orig,
                m_ignoredfilecfg = m_ignoredfilecfg orig,
                m_refCount = 0 \<rparr>)"

definition ref :: "nat \<Rightarrow> store \<Rightarrow> store" where
  "ref h st =
     (case impl_at st h of
        Some I \<Rightarrow> st[h := Some (I\<lparr> m_refCount := m_refCount I + 1 \<rparr>)]
      | None \<Rightarrow> st)"

definition unref :: "nat \<Rightarrow> store \<Rightarrow> store" where
  "unref h st =
     (case impl_at st h of
        Some I \<Rightarrow>
          if m_refCount I - 1 = 0 then st[h := None]
          else st[h := Some (I\<lparr> m_refCount := m_refCount I - 1 \<rparr>)]
      | None \<Rightarrow> st)"

text \<open>
  \<open>MatCfg::cow\<close>: nothing when the handle is the only owner; otherwise a clone at a new
  address, referenced once, replaces \<open>m_impl\<close> and the old object is unreferenced. An
  exception of the copy constructor leaves the heap as it was.
\<close>

definition cow :: "nat \<Rightarrow> store \<Rightarrow> error + nat \<times> store" where
  "cow h st =
     (case impl_at st h of
        None \<Rightarrow> Inl (LogicError ''handle does not point to a live object'')
      | Some I \<Rightarrow>
          if m_refCount I = 1 then Inr (h, st)
          else
            (case clone I of
               Inl e \<Rightarrow> Inl e
             | Inr newimpl \<Rightarrow>
                 (let n = length st in Inr (n, unref h (ref n (st @ [Some newimpl]))))))"

text \<open>
  The copy of a handle (\<open>MatCfg(const MatCfg&)\<close> and \<open>operator=\<close> into a null handle):
  the same address, one more reference.
\<close>

definition copy_handle :: "nat \<Rightarrow> store \<Rightarrow> nat \<times> store" where
  "copy_handle h st = (h, ref h st)"

text \<open>
  A setter of the form \<open>cow(); m_impl->f(...)\<close>. The result is the error thrown, if any,
  the handle's new address and the new heap, in which the handle's object is as \<open>f\<close>
  left it, whether \<open>f\<close> returned or threw.
\<close>

definition with_cow ::
  "(Impl \<Rightarrow> error option \<times> Impl) \<Rightarrow> nat \<times> store \<Rightarrow> error option \<times> nat \<times> store" where
  "with_cow f hs =
     (case cow (fst hs) (snd hs) of
        Inl e \<Rightarrow> (Some e, fst hs, snd hs)
      | Inr (h2, st2) \<Rightarrow>
          (case impl_at st2 h2 of
             None \<Rightarrow> (Some (LogicError ''handle does not point to a live object''), h2, st2)
           | Some I \<Rightarrow> (case f I of (eo, I2) \<Rightarrow> (eo, h2, st2[h2 := Some I2]))))"

text \<open>The loop of \<open>MatCfg::applyStrCfg\<close> over the parts, and the function itself.\<close>

fun applyStrCfg_loop ::
  "ext \<Rightarrow> string list \<Rightarrow> nat \<times> store \<Rightarrow> error option \<times> nat \<times> store" where
  "applyStrCfg_loop E [] hs = (None, fst hs, snd hs)"
| "applyStrCfg_loop E (part # parts) hs =
     (case applyStrCfg_part part of
        Inl e \<Rightarrow> (Some e, fst hs, snd hs)
      | Inr None \<Rightarrow> applyStrCfg_loop E parts hs
      | Inr (Some (name, val)) \<Rightarrow>
          (case with_cow (setValByStr E name val) hs of
             (Some e, h2, st2) \<Rightarrow> (Some e, h2, st2)
           | (None, h2, st2) \<Rightarrow> applyStrCfg_loop E parts (h2, st2)))"

definition applyStrCfg :: "ext \<Rightarrow> string \<Rightarrow> nat \<times> store \<Rightarrow> error option \<times> nat \<times> store" where
  "applyStrCfg E str hs =
     (case applyStrCfg_check str of
        Inl e \<Rightarrow> (Some e, fst hs, snd hs)
      | Inr u \<Rightarrow> applyStrCfg_loop E (split str 0 (CHR '';'')) hs)"

subsection \<open>Typed setters\<close>

definition setVal_vector ::
  "Impl \<Rightarrow> PARAMETERS \<Rightarrow> double \<times> double \<times> double \<Rightarrow> error option \<times> Impl" where
  "setVal_vector I par v =
     (case getValTypeForSet VALTYPE_VECTOR I par of
        Inl e \<Rightarrow> (Some e, I)
      | Inr (I1, vb) \<Rightarrow> (case ValVector_set vb v of (eo, vb2) \<Rightarrow> (eo, update_par I1 par vb2)))"

definition setVal_orientdir ::
  "Impl \<Rightarrow> PARAMETERS \<Rightarrow> bool \<Rightarrow> double \<times> double \<times> double \<Rightarrow> double \<times> double \<times> double
     \<Rightarrow> error option \<times> Impl" where
  "setVal_orientdir I par cishkl cdir ldir =
     (case getValTypeForSet VALTYPE_ORIENTDIR I par of
        Inl e \<Rightarrow> (Some e, I)
      | Inr (I1, vb) \<Rightarrow>
          (case ValOrientDir_set vb cishkl cdir ldir of (eo, vb2) \<Rightarrow> (eo, update_par I1 par vb2)))"

definition setVal_atomdb :: "ext \<Rightarrow> Impl \<Rightarrow> string \<Rightarrow> error option \<times> Impl" where
  "setVal_atomdb E I v =
     (case getValTypeForSet VALTYPE_ATOMDB I PAR_atomdb of
        Inl e \<Rightarrow> (Some e, I)
      | Inr (I1, vb) \<Rightarrow>
          (case ValAtomDB_set_from_strrep E vb v of (eo, vb2) \<Rightarrow> (eo, update_par I1 PAR_atomdb vb2)))"

text \<open>
  Modelled from the spec: the class \<open>SCOrientation\<close> (NCSCOrientation.hh) is not among
  the sources. The record holds what \<open>setOrientation\<close> reads from it: \<open>isComplete\<close>, the
  two crystal directions with their \<open>hkl\<close> flags, the two laboratory directions and the
  tolerance.
\<close>

record SCOrientation =
  sco_isComplete :: bool
  sco_CrysIsHKL :: "bool \<times> bool"
  sco_CrysDir :: "(double \<times> double \<times> double) \<times> (double \<times> double \<times> double)"
  sco_LabDir :: "(double \<times> double \<times> double) \<times> (double \<times> double \<times> double)"
  sco_Tolerance :: double

text \<open>
  \<open>Impl::setOrientation\<close>: both entries are requested first (and created where they
  are missing), then set in turn, then \<open>dirtol\<close> is set.
\<close>

definition Impl_setOrientation :: "SCOrientation \<Rightarrow> Impl \<Rightarrow> error option \<times> Impl" where
  "Impl_setOrientation sco I =
     (case getValTypeForSet VALTYPE_ORIENTDIR I PAR_dir1 of
        Inl e \<Rightarrow> (Some e, I)
      | Inr (I1, p0) \<Rightarrow>
          (case getValTypeForSet VALTYPE_ORIENTDIR I1 PAR_dir2 of
             Inl e \<Rightarrow> (Some e, I1)
           | Inr (I2, p1) \<Rightarrow>
               (case ValOrientDir_set p0 (fst (sco_CrysIsHKL sco)) (fst (sco_CrysDir sco))
                       (fst (sco_LabDir sco)) of
                  (Some e, d1) \<Rightarrow> (Some e, I2)
                | (None, d1) \<Rightarrow>
                    (case ValOrientDir_set p1 (snd (sco_CrysIsHKL sco)) (snd (sco_CrysDir sco))
                            (snd (sco_LabDir sco)) of
                       (Some e, d2) \<Rightarrow> (Some e, update_par I2 PAR_dir1 d1)
                     | (None, d2) \<Rightarrow>
                         setVal_dbl (update_par (update_par I2 PAR_dir1 d1) PAR_dir2 d2)
                           PAR_dirtol (sco_Tolerance sco)))))"

text \<open>
  The public setters of \<open>MatCfg\<close>, one constructor for each, and what each does to a
  handle: all of them call \<open>cow\<close> and then work on \<open>m_impl\<close>; \<open>setOrientation\<close> first
  rejects an incomplete orientation; \<open>applyStrCfg\<close> calls \<open>cow\<close> once for every part it
  sets.
\<close>

datatype setter =
    Set_temp double | Set_dcutoff double | Set_dcutoffup double | Set_packfact double
  | Set_mos double | Set_mosprec double | Set_sccutoff double | Set_dirtol double
  | Set_coh_elas bool | Set_incoh_elas bool
  | Set_inelas string | Set_overridefileext string | Set_infofactory string
  | Set_scatfactory string | Set_absnfactory string
  | Set_lcmode int | Set_vdoslux int
  | Set_atomdb string
  | Set_lcaxis "double \<times> double \<times> double"
  | Set_dir1 bool "double \<times> double \<times> double" "double \<times> double \<times> double"
  | Set_dir2 bool "double \<times> double \<times> double" "double \<times> double \<times> double"
  | SetOrientation SCOrientation
  | ApplyStrCfg string

fun run_setter :: "ext \<Rightarrow> setter \<Rightarrow> nat \<times> store \<Rightarrow> error option \<times> nat \<times> store" where
  "run_setter E (Set_temp v) hs = with_cow (\<lambda>I. setVal_dbl I PAR_temp v) hs"
| "run_setter E (Set_dcutoff v) hs = with_cow (\<lambda>I. setVal_dbl I PAR_dcutoff v) hs"
| "run_setter E (Set_dcutoffup v) hs = with_cow (\<lambda>I. setVal_dbl I PAR_dcutoffup v) hs"
| "run_setter E (Set_packfact v) hs = with_cow (\<lambda>I. setVal_dbl I PAR_packfact v) hs"
| "run_setter E (Set_mos v) hs = with_cow (\<lambda>I. setVal_dbl I PAR_mos v) hs"
| "run_setter E (Set_mosprec v) hs = with_cow (\<lambda>I. setVal_dbl I PAR_mosprec v) hs"
| "run_setter E (Set_sccutoff v) hs = with_cow (\<lambda>I. setVal_dbl I PAR_sccutoff v) hs"
| "run_setter E (Set_dirtol v) hs = with_cow (\<lambda>I. setVal_dbl I PAR_dirtol v) hs"
| "run_setter E (Set_coh_elas v) hs = with_cow (\<lambda>I. setVal_bool I PAR_coh_elas v) hs"
| "run_setter E (Set_incoh_elas v) hs = with_cow (\<lambda>I. setVal_bool I PAR_incoh_elas v) hs"
| "run_setter E (Set_inelas v) hs = with_cow (\<lambda>I. setVal_str I PAR_inelas v) hs"
| "run_setter E (Set_overridefileext v) hs = with_cow (\<lambda>I. setVal_str I PAR_overridefileext v) hs"
| "run_setter E (Set_infofactory v) hs = with_cow (\<lambda>I. setVal_str I PAR_infofactory v) hs"
| "run_setter E (Set_scatfactory v) hs = with_cow (\<lambda>I. setVal_str I PAR_scatfactory v) hs"
| "run_setter E (Set_absnfactory v) hs = with_cow (\<lambda>I. setVal_str I PAR_absnfactory v) hs"
| "run_setter E (Set_lcmode v) hs = with_cow (\<lambda>I. setVal_int I PAR_lcmode v) hs"
| "run_setter E (Set_vdoslux v) hs = with_cow (\<lambda>I. setVal_int I PAR_vdoslux v) hs"
| "run_setter E (Set_atomdb v) hs = with_cow (\<lambda>I. setVal_atomdb E I v) hs"
| "run_setter E (Set_lcaxis axis) hs = with_cow (\<lambda>I. setVal_vector I PAR_lcaxis axis) hs"
| "run_setter E (Set_dir1 cishkl cdir ldir) hs =
     with_cow (\<lambda>I. setVal_orientdir I PAR_dir1 cishkl cdir ldir) hs"
| "run_setter E (Set_dir2 cishkl cdir ldir) hs =
     with_cow (\<lambda>I. setVal_orientdir I PAR_dir2 cishkl cdir ldir) hs"
| "run_setter E (SetOrientation sco) hs =
     (if \<not> sco_isComplete sco
      then (Some (BadInput ''setOrientation called with incomplete SCOrientation object''), fst hs, snd hs)
      else with_cow (Impl_setOrientation sco) hs)"
| "run_setter E (ApplyStrCfg str) hs = applyStrCfg E str hs"

subsection \<open>Construction from a file name and a parameter string\<close>

definition pattern :: string where
  "pattern = ''NCRYSTALMATCFG''"

text \<open>
  The loop of \<open>Impl::extractFileCfgStr\<close> over the lines of the input, with \<open>res\<close>; the
  second test \<open>!contains(line,pattern)\<close> of the source repeats the first and is left
  out. The function trims \<open>res\<close> at the end.
\<close>

fun extractFileCfgStr_loop :: "string list \<Rightarrow> string \<Rightarrow> error + string" where
  "extractFileCfgStr_loop [] res = Inr res"
| "extractFileCfgStr_loop (line # rest) res =
     (case find_str line pattern of
        None \<Rightarrow> extractFileCfgStr_loop rest res
      | Some pos \<Rightarrow>
          if res \<noteq> []
          then Inl (BadInput ''Input file contains more than one NCRYSTALMATCFG specification: '')
          else
            (let line1 = drop (pos + length pattern) line in
             if line1 = [] \<or> hd line1 \<noteq> CHR ''[''
             then Inl (BadInput ''Input file contains NCRYSTALMATCFG which is not followed by a [ character: '')
             else if find_str line1 pattern \<noteq> None
             then Inl (BadInput ''Input file contains more than one NCRYSTALMATCFG specification on a single line: '')
             else
               (let line2 = drop 1 line1 in
                case find_chr line2 (CHR '']'') of
                  None \<Rightarrow> Inl (BadInput ''Input file contains NCRYSTALMATCFG without a closing ] character: '')
                | Some pos2 \<Rightarrow>
                    extractFileCfgStr_loop rest
                      (if take pos2 line2 = [] then '' '' else take pos2 line2))))"

definition extractFileCfgStr :: "string list \<Rightarrow> error + string" where
  "extractFileCfgStr lines =
     (case extractFileCfgStr_loop lines [] of Inl e \<Rightarrow> Inl e | Inr res \<Rightarrow> Inr (trim res))"

definition getDataFileExtension :: "Impl \<Rightarrow> string" where
  "getDataFileExtension I =
     (let s = get_overridefileext I in if s = [] then m_datafileext I else s)"

text \<open>
  The second and third part of the constructor's input: whether \<open>ignorefilecfg\<close>
  follows the file name, and the parameter string \<open>extracfgstr\<close>. The \<open>for\<close> loop of the
  source runs the same test and the same assignments once for every element of
  \<open>parts2\<close>, so it is one run of them when \<open>parts2\<close> is not empty.
\<close>

definition ctor_extracfg :: "string list \<Rightarrow> bool \<times> string" where
  "ctor_extracfg parts =
     (if length parts = 2 then
        (let parts2 = map trim (split (parts ! 1) 1 (CHR '';'')) in
         if parts2 = [] then (False, [])
         else if parts2 ! 0 = ''ignorefilecfg''
         then (True, if length parts2 = 2 then parts2 ! 1 else [])
         else (False, parts ! 1))
      else (False, []))"

text \<open>
  \<open>MatCfg::MatCfg(const std::string&)\<close>. \<open>createTextInputStream\<close> is the parameter
  \<open>fs\<close>: for a name it gives the lines of the input and its \<open>onDiskResolvedPath\<close>, or
  \<open>None\<close>. The new object is referenced once by the guard while the strings are
  applied, and once by the handle at the end; an exception deletes it, and the
  constructor has no other effect on the heap.
\<close>

definition MatCfg_ctor ::
  "ext \<Rightarrow> (string \<Rightarrow> (string list \<times> string) option) \<Rightarrow> string \<Rightarrow> store \<Rightarrow> error + nat \<times> store" where
  "MatCfg_ctor E fs datafile_and_parameters st =
     (let parts = map trim (split (trim datafile_and_parameters) 1 (CHR '';'')) in
      if parts = [] \<or> parts ! 0 = [] then Inl (MissingInfo ''Please supply name of data file'')
      else if contains (parts ! 0) (CHR ''='')
      then Inl (BadInput ''Filename contains a forbidden character (=): '')
      else
        (case fs (parts ! 0) of
           None \<Rightarrow> Inl (FileNotFound ''Could not find specified datafile: '')
         | Some (lines, resolved) \<Rightarrow>
             (let (ignored, extracfgstr) = ctor_extracfg parts;
                  I0 = new_Impl\<lparr> m_datafile_resolved := resolved,
                                m_datafile_orig := (if parts ! 0 \<noteq> resolved then parts ! 0 else []),
                                m_datafileext := getfileext (parts ! 0),
                                m_ignoredfilecfg := ignored,
                                m_refCount := 1 \<rparr>;
                  hs0 = (length st, st @ [Some I0])
              in
              (case (if ignored then Inr [] else extractFileCfgStr lines) of
                 Inl e \<Rightarrow> Inl e
               | Inr filecfgstr \<Rightarrow>
                   (case (if filecfgstr \<noteq> [] then applyStrCfg E filecfgstr hs0
                          else (None, fst hs0, snd hs0)) of
                      (Some e, h1, st1) \<Rightarrow> Inl e
                    | (None, h1, st1) \<Rightarrow>
                        (case (if extracfgstr \<noteq> [] then applyStrCfg E extracfgstr (h1, st1)
                               else (None, h1, st1)) of
                           (Some e, h2, st2) \<Rightarrow> Inl e
                         | (None, h2, st2) \<Rightarrow>
                             (case impl_at st2 h2 of
                                None \<Rightarrow> Inl (LogicError ''handle does not point to a live object'')
                              | Some I2 \<Rightarrow>
                                  if getDataFileExtension I2 = []
                                  then Inl (BadInput ''Unsupported data file (can not determine extension): '')
                                  else Inr (h2, st2))))))))"

section \<open>A reference environment\<close>

text \<open>
  Modelled from the spec: an instance of the parameters, for running the model on
  concrete inputs. The number parsers read plain decimal literals (an optional minus
  sign, digits, an optional fraction), \<open>dec_str2dbl\<close> giving the double next to the
  value, and reject every other string; \<open>nat2str\<close> and
  \<open>dec_int2str\<close> print an integer in decimal; \<open>fmt_g\<close> prints a double with \<open>p\<close>
  significant digits in fixed notation without trailing zeros, as a C++ stream does for
  a value between 0.0001 and 10 to the power \<open>p\<close>, a tie rounded to the even digit (it
  prints \<open>?\<close> for a finite value outside that range, where the stream switches to
  scientific notation); every line of an atom database is valid; an element name is a capital
  letter followed by at most one small letter.
\<close>

definition is_digits :: "string \<Rightarrow> bool" where
  "is_digits s = (s \<noteq> [] \<and> list_all (\<lambda>c. 48 \<le> (of_char c :: nat) \<and> (of_char c :: nat) \<le> 57) s)"

definition digits_val :: "string \<Rightarrow> nat" where
  "digits_val s = foldl (\<lambda>a c. 10 * a + ((of_char c :: nat) - 48)) 0 s"

definition dec_str2dbl :: "string \<Rightarrow> double option" where
  "dec_str2dbl s =
     (let neg = (s \<noteq> [] \<and> hd s = CHR ''-'');
          body = (if neg then tl s else s);
          ip = takeWhile (\<lambda>c. c \<noteq> CHR ''.'') body;
          rest = dropWhile (\<lambda>c. c \<noteq> CHR ''.'') body;
          sgn = (if neg then -1 else 1 :: real)
      in if \<not> is_digits ip then None
         else if rest = [] then Some (round64 (sgn * real (digits_val ip)))
         else if is_digits (tl rest)
         then Some (round64 (sgn * (real (digits_val ip) + real (digits_val (tl rest)) / 10 ^ length (tl rest))))
         else None)"

definition dec_str2int :: "string \<Rightarrow> int option" where
  "dec_str2int s =
     (let neg = (s \<noteq> [] \<and> hd s = CHR ''-'');
          body = (if neg then tl s else s)
      in if \<not> is_digits body then None
         else Some (if neg then - int (digits_val body) else int (digits_val body)))"

function nat2str :: "nat \<Rightarrow> string" where
  "nat2str n =
     (if n < 10 then [''0123456789'' ! n]
      else nat2str (n div 10) @ [''0123456789'' ! (n mod 10)])"
  by pat_completeness auto
termination
  by (relation "measure id") auto

declare nat2str.simps [simp del]

definition dec_int2str :: "int \<Rightarrow> string" where
  "dec_int2str i = (if i < 0 then CHR ''-'' # nat2str (nat (- i)) else nat2str (nat i))"

definition fmt_fixed :: "nat \<Rightarrow> real \<Rightarrow> string" where
  "fmt_fixed d x =
     (let n = nat (rhe (x * 10 ^ d));
          ip = nat2str (n div 10 ^ d);
          fp = nat2str (n mod 10 ^ d);
          fs = rev (dropWhile (\<lambda>c. c = CHR ''0'') (rev (replicate (d - length fp) (CHR ''0'') @ fp)))
      in if fs = [] then ip else ip @ ''.'' @ fs)"

definition fmt_g_pos :: "nat \<Rightarrow> real \<Rightarrow> string" where
  "fmt_g_pos p x =
     (if 1 \<le> x then
        (let w = length (nat2str (nat \<lfloor>x\<rfloor>)) in
         if w \<le> p then fmt_fixed (p - w) x else ''?'')
      else if 1 / 10 \<le> x then fmt_fixed p x
      else if 1 / 100 \<le> x then fmt_fixed (p + 1) x
      else if 1 / 1000 \<le> x then fmt_fixed (p + 2) x
      else if 1 / 10000 \<le> x then fmt_fixed (p + 3) x
      else ''?'')"

fun fmt_g :: "nat \<Rightarrow> double \<Rightarrow> string" where
  "fmt_g p NaN = ''nan''"
| "fmt_g p PosInf = ''inf''"
| "fmt_g p NegInf = ''-inf''"
| "fmt_g p (Fin x) =
     (if x = 0 then ''0''
      else if x < 0 then CHR ''-'' # fmt_g_pos (max p 1) (- x)
      else fmt_g_pos (max p 1) x)"

definition simple_element_name :: "string \<Rightarrow> nat \<Rightarrow> bool" where
  "simple_element_name s version =
     (case s of
        [] \<Rightarrow> False
      | c # cs \<Rightarrow> c \<in> set ''ABCDEFGHIJKLMNOPQRSTUVWXYZ''
                 \<and> length cs \<le> 1 \<and> list_all (\<lambda>d. d \<in> set ''abcdefghijklmnopqrstuvwxyz'') cs)"

definition ext0 :: ext where
  "ext0 = \<lparr> ext_str2dbl = dec_str2dbl, ext_str2int = dec_str2int,
            ext_validateAtomDBLine = (\<lambda>line. True),
            ext_validateElementNameByVersion = simple_element_name,
            ext_dbl2str = fmt_g, ext_int2str = dec_int2str \<rparr>"

section \<open>Invariants used in the proofs\<close>

text \<open>
  What a second handle at address \<open>a\<close> keeps while a setter runs on the handle
  \<open>fst hs\<close>: the object at \<open>a\<close> is alive with the table of \<open>I\<close>, and the running handle
  either points elsewhere or shares the object with somebody (reference count above 1).
\<close>

definition shared_view :: "nat \<Rightarrow> Impl \<Rightarrow> nat \<times> store \<Rightarrow> bool" where
  "shared_view a I hs =
     (\<exists>I'. impl_at (snd hs) a = Some I' \<and> m_parlist I' = m_parlist I
           \<and> (fst hs \<noteq> a \<or> 1 < m_refCount I'))"

text \<open>
  The entry of one parameter in the cache signature: its name, \<open>=\<close>, and its value
  printed for the cache, or \<open><>\<close> when it is not set.
\<close>

definition cache_entry :: "ext \<Rightarrow> Impl \<Rightarrow> PARAMETERS \<Rightarrow> string" where
  "cache_entry E I p =
     parnames p @ ''='' @ (case m_parlist I p of Some vb \<Rightarrow> to_strrep E vb True | None \<Rightarrow> ''<>'')"

text \<open>
  \<open>applyStrCfg\<close> as a function on the object of a handle that is its only owner:
  \<open>cow\<close> does nothing there, and the parts are set in turn on the same object.
\<close>

fun applyStrCfg_owned_loop :: "ext \<Rightarrow> string list \<Rightarrow> Impl \<Rightarrow> error option \<times> Impl" where
  "applyStrCfg_owned_loop E [] I = (None, I)"
| "applyStrCfg_owned_loop E (part # parts) I =
     (case applyStrCfg_part part of
        Inl e \<Rightarrow> (Some e, I)
      | Inr None \<Rightarrow> applyStrCfg_owned_loop E parts I
      | Inr (Some (name, val)) \<Rightarrow>
          (case setValByStr E name val I of
             (Some e, I2) \<Rightarrow> (Some e, I2)
           | (None, I2) \<Rightarrow> applyStrCfg_owned_loop E parts I2))"

definition applyStrCfg_owned :: "ext \<Rightarrow> string \<Rightarrow> Impl \<Rightarrow> error option \<times> Impl" where
  "applyStrCfg_owned E str I =
     (case applyStrCfg_check str of
        Inl e \<Rightarrow> (Some e, I)
      | Inr u \<Rightarrow> applyStrCfg_owned_loop E (split str 0 (CHR '';'')) I)"

text \<open>
  A part of the form \<open>key=value\<close>: it splits at \<open>=\<close> into exactly two pieces, and the
  first is not blank.
\<close>

definition key_value_form :: "string \<Rightarrow> bool" where
  "key_value_form part =
     (case split part 0 (CHR ''='') of [k, v] \<Rightarrow> trim k \<noteq> [] | _ \<Rightarrow> False)"


section \<open>Properties\<close>

subsection \<open>Evaluating binary64 arithmetic\<close>

lemma round64_eqI:
  assumes "x \<noteq> 0" "2 powr of_int e \<le> \<bar>x\<bar>" "\<bar>x\<bar> < 2 powr of_int (e + 1)"
  shows "round64 x = round64_exp x e"
proof -
  have "\<lfloor>log 2 \<bar>x\<bar>\<rfloor> = e"
    using assms by (subst floor_log_eq_powr_iff) auto
  then show ?thesis using assms(1) by (simp add: round64_def)
qed

lemmas r64_eval = round64_exp_def rhe_def Let_def powr_minus

lemma r64_v1: "round64 (5463 / 20) = Fin (2402652809016115 / 8796093022208)"
  by (subst round64_eqI[where e = "8"]) (simp_all add: r64_eval)

lemma r64_v2: "round64 (9 / 5) = Fin (8106479329266893 / 4503599627370496)"
  by (subst round64_eqI[where e = "0"]) (simp_all add: r64_eval)

lemma r64_v3: "round64 (1 / 1000) = Fin (1152921504606847 / 1152921504606846976)"
  by (subst round64_eqI[where e = "-10"]) (simp_all add: r64_eval)

lemma r64_v4: "round64 (2 / 5) = Fin (3602879701896397 / 9007199254740992)"
  by (subst round64_eqI[where e = "-2"]) (simp_all add: r64_eval)

lemma r64_v5: "round64 (1 / 10000) = Fin (7378697629483821 / 73786976294838206464)"
  by (subst round64_eqI[where e = "-14"]) (simp_all add: r64_eval)

lemma r64_v6: "round64 (9999 / 100000000000) = Fin (7555030793954173 / 75557863725914323419136)"
  by (subst round64_eqI[where e = "-24"]) (simp_all add: r64_eval)

lemma r64_v7: "round64 (10000001 / 100000000) = Fin (3602880062184367 / 36028797018963968)"
  by (subst round64_eqI[where e = "-4"]) (simp_all add: r64_eval)

lemma r64_v8: "round64 (5863 / 20) = Fin (2578574669460275 / 8796093022208)"
  by (subst round64_eqI[where e = "8"]) (simp_all add: r64_eval)

lemma r64_v9: "round64 (4503599627370496 / 8106479329266893) = Fin (2501999792983609 / 4503599627370496)"
  by (subst round64_eqI[where e = "-1"]) (simp_all add: r64_eval)

lemma r64_v10: "round64 (144115188075855872 / 8106479329266893) = Fin (2501999792983609 / 140737488355328)"
  by (subst round64_eqI[where e = "4"]) (simp_all add: r64_eval)

lemma r64_v11: "round64 (35940445151274231 / 140737488355328) = Fin (4492555643909279 / 17592186044416)"
  by (subst round64_eqI[where e = "7"]) (simp_all add: r64_eval)

lemma r64_v12: "round64 (176855943800711 / 10133099161583616) = Fin (5030569068109113 / 288230376151711744)"
  by (subst round64_eqI[where e = "-6"]) (simp_all add: r64_eval)

lemma r64_v13: "round64 (176855943800711 / 607985949695016960) = Fin (5365940339316387 / 18446744073709551616)"
  by (subst round64_eqI[where e = "-12"]) (simp_all add: r64_eval)

lemma r64_v14: "round64 (176855943800711 / 36479156981701017600) = Fin (5723669695270813 / 1180591620717411303424)"
  by (subst round64_eqI[where e = "-18"]) (simp_all add: r64_eval)

lemma r64_v15: "round64 (20) = Fin (20)"
  by (subst round64_eqI[where e = "4"]) (simp_all add: r64_eval)

lemma r64_v16: "round64 (2578574669460275 / 8796093022208) = Fin (2578574669460275 / 8796093022208)"
  by (subst round64_eqI[where e = "8"]) (simp_all add: r64_eval)

lemma r64_v17: "round64 (60) = Fin (60)"
  by (subst round64_eqI[where e = "5"]) (simp_all add: r64_eval)

lemma r64_v18: "round64 (80489105089745805 / 4611686018427387904) = Fin (5030569068109113 / 288230376151711744)"
  by (subst round64_eqI[where e = "-6"]) (simp_all add: r64_eval)

lemma r64_v19: "round64 (5030569068109113 / 288230376151711744) = Fin (5030569068109113 / 288230376151711744)"
  by (subst round64_eqI[where e = "-6"]) (simp_all add: r64_eval)

lemma r64_v20: "round64 (13264195785053325 / 70368744177664) = Fin (3316048946263331 / 17592186044416)"
  by (subst round64_eqI[where e = "7"]) (simp_all add: r64_eval)

lemma r64_v21: "round64 (3316048946263331 / 189995609279692800) = Fin (5030569068109113 / 288230376151711744)"
  by (subst round64_eqI[where e = "-6"]) (simp_all add: r64_eval)

lemma r64_v22: "round64 (466) = Fin (466)"
  by (subst round64_eqI[where e = "8"]) (simp_all add: r64_eval)

lemma r64_v23: "round64 (582965951765180897 / 2251799813685248) = Fin (1138605374541369 / 4398046511104)"
  by (subst round64_eqI[where e = "8"]) (simp_all add: r64_eval)

lemma r64_v24: "round64 (9046977142074755 / 17592186044416) = Fin (2261744285518689 / 4398046511104)"
  by (subst round64_eqI[where e = "9"]) (simp_all add: r64_eval)

lemma r64_v25: "round64 (2098677426354651136 / 8106479329266893) = Fin (4554421498165475 / 17592186044416)"
  by (subst round64_eqI[where e = "8"]) (simp_all add: r64_eval)

lemma r64_v26: "round64 (4523488571037377 / 8796093022208) = Fin (4523488571037377 / 8796093022208)"
  by (subst round64_eqI[where e = "9"]) (simp_all add: r64_eval)

lemma r64_v27: "round64 (92567 / 180) = Fin (4523488571037377 / 8796093022208)"
  by (subst round64_eqI[where e = "9"]) (simp_all add: r64_eval)

lemma r64_v28: "round64 (500) = Fin (500)"
  by (subst round64_eqI[where e = "8"]) (simp_all add: r64_eval)

lemma r64_v29: "round64 (300) = Fin (300)"
  by (subst round64_eqI[where e = "8"]) (simp_all add: r64_eval)

lemma r64_v30: "round64 (1 / 10) = Fin (3602879701896397 / 36028797018963968)"
  by (subst round64_eqI[where e = "-4"]) (simp_all add: r64_eval)

lemma r64_v31: "round64 (1 / 5) = Fin (3602879701896397 / 18014398509481984)"
  by (subst round64_eqI[where e = "-3"]) (simp_all add: r64_eval)

lemma r64_v32: "round64 (3 / 10) = Fin (5404319552844595 / 18014398509481984)"
  by (subst round64_eqI[where e = "-2"]) (simp_all add: r64_eval)

lemma r64_v33: "round64 (5) = Fin (5)"
  by (subst round64_eqI[where e = "2"]) (simp_all add: r64_eval)

lemma r64_v34: "round64 (77) = Fin (77)"
  by (subst round64_eqI[where e = "6"]) (simp_all add: r64_eval)

lemma r64_v35: "round64 (1) = Fin (1)"
  by (subst round64_eqI[where e = "0"]) (simp_all add: r64_eval)

lemmas r64_vals = r64_v1 r64_v2 r64_v3 r64_v4 r64_v5 r64_v6 r64_v7 r64_v8 r64_v9 r64_v10 r64_v11 r64_v12 r64_v13 r64_v14 r64_v15 r64_v16 r64_v17 r64_v18 r64_v19 r64_v20 r64_v21 r64_v22 r64_v23 r64_v24 r64_v25 r64_v26 r64_v27 r64_v28 r64_v29 r64_v30 r64_v31 r64_v32 r64_v33 r64_v34 r64_v35

lemma unit_constants:
  "lit (27315 / 100) = Fin (2402652809016115 / 8796093022208)"
  "ddiv (Fin 1) (lit (18 / 10)) = Fin (2501999792983609 / 4503599627370496)"
  "dsub (lit (27315 / 100)) (ddiv (Fin 32) (lit (18 / 10))) = Fin (4492555643909279 / 17592186044416)"
  "kDeg = Fin (5030569068109113 / 288230376151711744)"
  "kArcMin = Fin (5365940339316387 / 18446744073709551616)"
  "kArcSec = Fin (5723669695270813 / 1180591620717411303424)"
  by (simp_all add: lit_def dsub_def kDeg_def kArcMin_def kArcSec_def kPi_def r64_vals)

lemmas unit_consts = unit_constants unit_constants[simplified]

lemma new_Impl_simps [simp]:
  "m_parlist new_Impl p = None" "m_spies new_Impl = []"
  by (simp_all add: new_Impl_def)

lemma update_par_simps [simp]:
  "m_parlist (update_par I p vb) q = (if q = p then Some vb else m_parlist I q)"
  "m_spies (update_par I p vb) = m_spies I"
  "m_refCount (update_par I p vb) = m_refCount I"
  "m_datafileext (update_par I p vb) = m_datafileext I"
  "m_datafile_orig (update_par I p vb) = m_datafile_orig I"
  "m_datafile_resolved (update_par I p vb) = m_datafile_resolved I"
  "m_ignoredfilecfg (update_par I p vb) = m_ignoredfilecfg I"
  "update_par (update_par I p va) p vb = update_par I p vb"
  by (simp_all add: update_par_def)

text \<open>
  C3. The check of \<open>temp\<close> throws exactly for a value that differs from -1 and is below
  0 or above 1e5. Its own message gives the range as (0.0,1e5], open at 0, but the
  comparison is \<open>parval_temp < 0.0\<close>: a configuration whose \<open>temp\<close> was set to 0 passes
  the check of \<open>temp\<close> and, with every other parameter at its default, all the range
  checks.
\<close>

theorem checkConsistency_temp_zero_accepted:
  "(checkConsistency_ranges I = Inl (BadInput ''temp must be -1.0 or in the range (0.0,1e5]'')
      \<longleftrightarrow> dne (get_temp I) (Fin (-1)) \<and> (dlt (get_temp I) (Fin 0) \<or> dgt (get_temp I) (Fin 100000)))
   \<and> fst (setVal_dbl new_Impl PAR_temp (Fin 0)) = None
   \<and> get_temp (snd (setVal_dbl new_Impl PAR_temp (Fin 0))) = Fin 0
   \<and> checkConsistency_ranges (snd (setVal_dbl new_Impl PAR_temp (Fin 0))) = Inr ()"
proof -
  have a: "checkConsistency_ranges I = Inl (BadInput ''temp must be -1.0 or in the range (0.0,1e5]'')
      \<longleftrightarrow> dne (get_temp I) (Fin (-1)) \<and> (dlt (get_temp I) (Fin 0) \<or> dgt (get_temp I) (Fin 100000))"
    by (simp add: checkConsistency_ranges_def Let_def)
  have b: "setVal_dbl new_Impl PAR_temp (Fin 0)
      = (None, update_par new_Impl PAR_temp (ValDbl (Fin 0) UnitTemp []))"
    by (simp add: setVal_dbl_def getValTypeForSet_def ensureNoSpy_def ValDbl_set_def ncisnan_def
        update_par_def)
  have c: "get_temp (update_par new_Impl PAR_temp (ValDbl (Fin 0) UnitTemp [])) = Fin 0"
    by (simp add: get_temp_def getVal_dbl_def update_par_def)
  have d: "checkConsistency_ranges (update_par new_Impl PAR_temp (ValDbl (Fin 0) UnitTemp [])) = Inr ()"
    by (simp add: checkConsistency_ranges_def Let_def get_temp_def get_dcutoff_def get_dcutoffup_def
        get_packfact_def get_dirtol_def get_sccutoff_def get_mosprec_def getVal_dbl_def update_par_def
        kInfinity_def kPi_def dne_def dgt_def dge_def dle_def valueInInterval_def lit_def r64_vals)
  show ?thesis using a b c d by simp
qed

subsection \<open>Copy-on-write\<close>

lemma impl_at_Some_less: "impl_at st a = Some I \<Longrightarrow> a < length st"
  by (simp add: impl_at_def split: if_splits)

lemma impl_at_update: "impl_at (st[h := v]) a = (if a = h \<and> h < length st then v else impl_at st a)"
  by (simp add: impl_at_def)

lemma impl_at_append: "impl_at (st @ [v]) a = (if a = length st then v else impl_at st a)"
  by (simp add: impl_at_def nth_append)

lemma impl_at_ref: "impl_at (ref h st) a =
   (if a = h then map_option (\<lambda>I. I\<lparr> m_refCount := m_refCount I + 1 \<rparr>) (impl_at st a) else impl_at st a)"
  by (auto simp: ref_def impl_at_update split: option.splits dest: impl_at_Some_less)

lemma impl_at_unref: "impl_at (unref h st) a =
   (if a = h then (case impl_at st a of None \<Rightarrow> None
       | Some I \<Rightarrow> if m_refCount I - 1 = 0 then None else Some (I\<lparr> m_refCount := m_refCount I - 1 \<rparr>))
    else impl_at st a)"
  by (auto simp: unref_def impl_at_update split: option.splits dest: impl_at_Some_less)

lemma cow_shared_view:
  assumes "shared_view a I (h, st)" and "cow h st = Inr (h2, st2)"
  shows "shared_view a I (h2, st2) \<and> h2 \<noteq> a"
proof -
  from assms(1) obtain I' where I': "impl_at st a = Some I'" "m_parlist I' = m_parlist I"
    "h \<noteq> a \<or> 1 < m_refCount I'"
    by (auto simp: shared_view_def)
  have alt: "a < length st" using I'(1) by (rule impl_at_Some_less)
  from assms(2) obtain J where J: "impl_at st h = Some J"
    by (auto simp: cow_def split: option.splits)
  show ?thesis
  proof (cases "m_refCount J = 1")
    case True
    with assms(2) J have "h2 = h" "st2 = st" by (auto simp: cow_def)
    moreover have "h \<noteq> a" using I' J True by auto
    ultimately show ?thesis using I' by (auto simp: shared_view_def)
  next
    case False
    with assms(2) J obtain newimpl where n: "clone J = Inr newimpl"
      "h2 = length st" "st2 = unref h (ref (length st) (st @ [Some newimpl]))"
      by (auto simp: cow_def Let_def split: sum.splits)
    have hl: "h < length st" using J by (rule impl_at_Some_less)
    have "h2 \<noteq> a" using n(2) alt by simp
    moreover have "\<exists>I''. impl_at st2 a = Some I'' \<and> m_parlist I'' = m_parlist I"
    proof (cases "h = a")
      case True
      then have "1 < m_refCount I'" using I' by auto
      then show ?thesis using True I' alt n(3)
        by (simp add: impl_at_unref impl_at_ref impl_at_append)
    next
      case False
      then show ?thesis using I' alt n(3)
        by (simp add: impl_at_unref impl_at_ref impl_at_append)
    qed
    ultimately show ?thesis by (auto simp: shared_view_def)
  qed
qed

lemma with_cow_shared_view:
  assumes "shared_view a I hs" and "with_cow f hs = (err, h2, st2)"
  shows "shared_view a I (h2, st2) \<and> (h2 \<noteq> a \<or> (h2, st2) = hs)"
proof (cases "cow (fst hs) (snd hs)")
  case (Inl e)
  with assms show ?thesis by (cases hs) (auto simp: with_cow_def)
next
  case (Inr r)
  obtain h1 st1 where r: "r = (h1, st1)" by (cases r)
  have sv: "shared_view a I (h1, st1)" "h1 \<noteq> a"
    using cow_shared_view[of a I "fst hs" "snd hs" h1 st1] assms(1) Inr r by auto
  show ?thesis
  proof (cases "impl_at st1 h1")
    case None
    with assms(2) Inr r sv show ?thesis by (auto simp: with_cow_def)
  next
    case (Some J)
    obtain eo J2 where f: "f J = (eo, J2)" by (cases "f J")
    with assms(2) Inr r Some
    have "h2 = h1" "st2 = st1[h1 := Some J2]" by (auto simp: with_cow_def)
    with sv show ?thesis by (auto simp: shared_view_def impl_at_update)
  qed
qed

lemma applyStrCfg_loop_shared_view:
  "shared_view a I hs \<Longrightarrow> applyStrCfg_loop E parts hs = (err, h2, st2)
     \<Longrightarrow> shared_view a I (h2, st2) \<and> (h2 \<noteq> a \<or> (h2, st2) = hs)"
proof (induction parts arbitrary: hs)
  case Nil
  then show ?case by (cases hs) auto
next
  case (Cons part parts)
  show ?case
  proof (cases "applyStrCfg_part part")
    case (Inl e)
    with Cons.prems show ?thesis by (cases hs) auto
  next
    case (Inr r)
    show ?thesis
    proof (cases r)
      case None
      with Inr Cons.prems(2) have "applyStrCfg_loop E parts hs = (err, h2, st2)" by simp
      from Cons.IH[OF Cons.prems(1) this] show ?thesis .
    next
      case (Some nv)
      obtain name val where nv: "nv = (name, val)" by (cases nv)
      obtain e1 h1 st1 where w: "with_cow (setValByStr E name val) hs = (e1, h1, st1)"
        by (cases "with_cow (setValByStr E name val) hs") auto
      have sv: "shared_view a I (h1, st1)" "h1 \<noteq> a \<or> (h1, st1) = hs"
        using with_cow_shared_view[OF Cons.prems(1) w] by auto
      show ?thesis
      proof (cases e1)
        case None
        with Cons.prems(2) Inr Some nv w have "applyStrCfg_loop E parts (h1, st1) = (err, h2, st2)"
          by simp
        from Cons.IH[OF sv(1) this] have "shared_view a I (h2, st2)" "h2 \<noteq> a \<or> (h2, st2) = (h1, st1)"
          by blast+
        with sv(2) show ?thesis by blast
      next
        case (Some e)
        with Cons.prems(2) Inr \<open>r = Some nv\<close> nv w have "h2 = h1" "st2 = st1" by auto
        then show ?thesis using sv by simp
      qed
    qed
  qed
qed

lemma run_setter_cases:
  "(\<exists>f. run_setter E call hs = with_cow f hs)
   \<or> (\<exists>sco. call = SetOrientation sco) \<or> (\<exists>str. call = ApplyStrCfg str)"
  by (cases call) (simp_all, blast+)

lemma run_setter_shared_view:
  assumes "shared_view a I hs" and "run_setter E call hs = (err, h2, st2)"
  shows "shared_view a I (h2, st2) \<and> (h2 \<noteq> a \<or> (h2, st2) = hs)"
proof -
  consider (simple) f where "run_setter E call hs = with_cow f hs"
    | (orient) sco where "call = SetOrientation sco"
    | (str) str where "call = ApplyStrCfg str"
    using run_setter_cases[of E call hs] by blast
  then show ?thesis
  proof cases
    case simple
    with assms(2) have "with_cow f hs = (err, h2, st2)" by simp
    from with_cow_shared_view[OF assms(1) this] show ?thesis .
  next
    case orient
    show ?thesis
    proof (cases "sco_isComplete sco")
      case True
      with orient assms have "with_cow (Impl_setOrientation sco) hs = (err, h2, st2)" by simp
      from with_cow_shared_view[OF assms(1) this] show ?thesis .
    next
      case False
      with orient assms show ?thesis by (cases hs) auto
    qed
  next
    case str
    show ?thesis
    proof (cases "applyStrCfg_check str")
      case (Inl e)
      with str assms show ?thesis by (cases hs) (auto simp: applyStrCfg_def)
    next
      case (Inr u)
      with str assms have "applyStrCfg_loop E (split str 0 (CHR '';'')) hs = (err, h2, st2)"
        by (simp add: applyStrCfg_def)
      from applyStrCfg_loop_shared_view[OF assms(1) this] show ?thesis .
    qed
  qed
qed

text \<open>
  C2. Two handles share the object at address \<open>a\<close>, whose reference count exceeds 1.
  Whatever setter runs on the first handle, and whether it returns or throws, the object
  at \<open>a\<close>, which the second handle still points to, is alive afterwards and holds the
  same table, so every parameter read through the second handle is unchanged; and
  either the first handle now points to another object (the clone made by \<open>cow\<close>) or
  the heap is exactly as before.
\<close>

theorem cow_isolation:
  assumes "impl_at st a = Some I" and "1 < m_refCount I"
    and "run_setter E call (a, st) = (err, h1, st')"
  shows "(\<exists>I'. impl_at st' a = Some I' \<and> m_parlist I' = m_parlist I)
         \<and> (h1 \<noteq> a \<or> st' = st)"
proof -
  have "shared_view a I (a, st)" using assms(1,2) by (auto simp: shared_view_def)
  from run_setter_shared_view[OF this assms(3)] show ?thesis
    by (auto simp: shared_view_def)
qed

theorem cow_isolation_witness:
  "impl_at [Some (new_Impl\<lparr> m_refCount := 2 \<rparr>)] 0 = Some (new_Impl\<lparr> m_refCount := 2 \<rparr>)
   \<and> 1 < m_refCount (new_Impl\<lparr> m_refCount := 2 \<rparr>)
   \<and> run_setter ext0 (Set_temp (Fin 77)) (0, [Some (new_Impl\<lparr> m_refCount := 2 \<rparr>)])
       = (None, 1, [Some (new_Impl\<lparr> m_refCount := 1 \<rparr>),
                    Some (update_par (new_Impl\<lparr> m_refCount := 1 \<rparr>) PAR_temp (ValDbl (Fin 77) UnitTemp []))])
   \<and> (\<exists>I'. impl_at [Some (new_Impl\<lparr> m_refCount := 1 \<rparr>),
                      Some (update_par (new_Impl\<lparr> m_refCount := 1 \<rparr>) PAR_temp (ValDbl (Fin 77) UnitTemp []))] 0
               = Some I'
             \<and> m_parlist I' = m_parlist (new_Impl\<lparr> m_refCount := 2 \<rparr>))"
proof -
  have a: "impl_at [Some (new_Impl\<lparr> m_refCount := 2 \<rparr>)] 0 = Some (new_Impl\<lparr> m_refCount := 2 \<rparr>)"
    by (simp add: impl_at_def)
  have b: "1 < m_refCount (new_Impl\<lparr> m_refCount := 2 \<rparr>)" by simp
  have c: "run_setter ext0 (Set_temp (Fin 77)) (0, [Some (new_Impl\<lparr> m_refCount := 2 \<rparr>)])
       = (None, 1, [Some (new_Impl\<lparr> m_refCount := 1 \<rparr>),
                    Some (update_par (new_Impl\<lparr> m_refCount := 1 \<rparr>) PAR_temp (ValDbl (Fin 77) UnitTemp []))])"
    by (simp add: with_cow_def cow_def impl_at_def clone_def ensureNoSpy_def ref_def unref_def
        setVal_dbl_def getValTypeForSet_def ValDbl_set_def ncisnan_def update_par_def new_Impl_def
        fun_eq_iff)
  from cow_isolation[OF a b c] a b c show ?thesis by simp
qed

subsection \<open>The cache signature\<close>

lemma strNameToParIdx_parnames: "strNameToParIdx (parnames p) = Inr p"
  by (cases p) (simp_all add: strNameToParIdx_def all_pars_def)

lemma getCacheSignature_loop_eq:
  "getCacheSignature_loop E I (map parnames ps) first s =
     Inr (s @ (if ps = [] then [] else (if first then [] else '';'') @ joinstr (map (cache_entry E I) ps) '';''))"
proof (induction ps arbitrary: first s)
  case Nil
  show ?case by simp
next
  case (Cons p ps)
  have "getCacheSignature_loop E I (map parnames (p # ps)) first s
      = getCacheSignature_loop E I (map parnames ps) False
          (s @ (if first then [] else '';'') @ cache_entry E I p)"
    by (simp add: strNameToParIdx_parnames cache_entry_def)
  also have "\<dots> = Inr ((s @ (if first then [] else '';'') @ cache_entry E I p)
       @ (if ps = [] then [] else '';'' @ joinstr (map (cache_entry E I) ps) '';''))"
    by (simp add: Cons.IH)
  also have "\<dots> = Inr (s @ (if first then [] else '';'') @ joinstr (map (cache_entry E I) (p # ps)) '';'')"
    by (cases ps) simp_all
  finally show ?case by simp
qed

text \<open>
  C4, as amended. For names of parameters, \<open>getCacheSignature\<close> joins with \<open>;\<close> one
  entry for each name: the name, \<open>=\<close>, and the value printed with \<open>forcache\<close> set, or
  \<open><>\<close> when the parameter is not set. A double is then printed by the stream at
  precision 16 (\<open>setprecision(16)\<close>, that is 16 significant digits), whatever its
  \<open>origstrrep\<close>; not at precision 17.
\<close>

theorem cache_signature_precision:
  "getCacheSignature E I (map parnames ps) = Inr (joinstr (map (cache_entry E I) ps) '';'')
   \<and> to_strrep E (ValDbl v ut origstrrep) True = ext_dbl2str E 16 v"
  by (simp add: getCacheSignature_def getCacheSignature_loop_eq)

lemma nat2str_zero: "nat2str 0 = ''0''"
  by (subst nat2str.simps) simp

lemma nat2str_one: "nat2str 1 = ''1''" "nat2str (Suc 0) = ''1''"
  by (subst nat2str.simps, simp)+

lemma nat2str_numeral:
  "nat2str (numeral k) =
     (if (numeral k :: nat) < 10 then [''0123456789'' ! numeral k]
      else nat2str (numeral k div 10) @ [''0123456789'' ! (numeral k mod 10)])"
  by (rule nat2str.simps)

lemma replicate_numeral_eval: "replicate (numeral k) x = x # replicate (pred_numeral k) x"
  by (simp add: numeral_eq_Suc)

lemmas fmt_eval = fmt_g_pos_def fmt_fixed_def Let_def nat2str_zero nat2str_one nat2str_numeral
  replicate_numeral_eval rhe_def

text \<open>
  C4 as stated fails: with \<open>temp\<close> holding 1 + 2^-52, the signature of \<open>temp\<close> is
  \<open>temp=1\<close>, while 17 significant digits give \<open>temp=1.0000000000000002\<close>.
\<close>

theorem cache_signature_precision_counterexample:
  "getCacheSignature ext0 (update_par new_Impl PAR_temp (ValDbl (Fin (1 + 1 / 2 ^ 52)) UnitTemp [])) [''temp'']
     = Inr ''temp=1''
   \<and> ''temp='' @ ext_dbl2str ext0 17 (Fin (1 + 1 / 2 ^ 52)) = ''temp=1.0000000000000002''"
proof -
  define v0 where "v0 = Fin (1 + 1 / 2 ^ 52)"
  have a: "fmt_g 16 v0 = ''1''"
    by (simp add: v0_def fmt_eval)
  have b: "fmt_g 17 v0 = ''1.0000000000000002''"
    by (simp add: v0_def fmt_eval)
  have c: "strNameToParIdx ''temp'' = Inr PAR_temp"
    using strNameToParIdx_parnames[of PAR_temp] by simp
  have "getCacheSignature ext0 (update_par new_Impl PAR_temp (ValDbl v0 UnitTemp [])) [''temp'']
     = Inr ''temp=1''
   \<and> ''temp='' @ ext_dbl2str ext0 17 v0 = ''temp=1.0000000000000002''"
    by (simp add: getCacheSignature_def c update_par_def ext0_def a b)
  then show ?thesis by (simp only: v0_def)
qed

subsection \<open>Unit suffixes\<close>








lemma round64_not_NaN [simp]: "round64 z \<noteq> NaN"
  by (simp add: round64_def round64_exp_def Let_def)

lemma dmul_Fin_not_NaN [simp]: "dmul (Fin u) (Fin x) \<noteq> NaN"
  by simp

lemma dadd_Fin_round64_not_NaN [simp]: "dadd (Fin a) (round64 z) \<noteq> NaN"
  by (cases "round64 z") simp_all










subsection \<open>Blank segments of a parameter string\<close>

lemma split_lim_not_Nil: "split_lim ms sep s \<noteq> []"
  by (induction s arbitrary: ms) (auto split: list.splits)

lemma split_lim_append_sep: "split_lim None sep (s @ [sep]) = split_lim None sep s @ [[]]"
proof (induction s)
  case Nil
  show ?case by simp
next
  case (Cons c cs)
  show ?case
  proof (cases "c = sep")
    case True
    with Cons show ?thesis by simp
  next
    case False
    obtain p ps where p: "split_lim None sep cs = p # ps"
      using split_lim_not_Nil[of None sep cs] by (cases "split_lim None sep cs") auto
    with False Cons show ?thesis by simp
  qed
qed

lemma applyStrCfg_part_blank: "trim part = [] \<Longrightarrow> applyStrCfg_part part = Inr None"
  by (simp add: applyStrCfg_part_def)

lemma applyStrCfg_part_error_iff:
  "(\<exists>e. applyStrCfg_part part = Inl e) \<longleftrightarrow> (trim part \<noteq> [] \<and> \<not> key_value_form (trim part))"
proof -
  have i: "\<not> key_value_form ''ignorefilecfg''"
    by (simp add: key_value_form_def split_def)
  show ?thesis
    using i by (auto simp: applyStrCfg_part_def key_value_form_def Let_def split: list.splits)
qed

lemma applyStrCfg_part_BadInput: "applyStrCfg_part part = Inl e \<Longrightarrow> isBadInput e"
  by (auto simp: applyStrCfg_part_def Let_def split: list.splits if_splits)

lemma applyStrCfg_loop_filter:
  "applyStrCfg_loop E parts hs = applyStrCfg_loop E (filter (\<lambda>p. trim p \<noteq> []) parts) hs"
proof (induction parts arbitrary: hs)
  case Nil
  show ?case by simp
next
  case (Cons part parts)
  show ?case
  proof (cases "trim part = []")
    case True
    then show ?thesis using Cons[of hs] by (simp add: applyStrCfg_part_blank)
  next
    case False
    then show ?thesis using Cons
      by (simp split: sum.splits option.splits prod.splits)
  qed
qed

lemma applyStrCfg_loop_append_blank:
  "trim q = [] \<Longrightarrow> applyStrCfg_loop E (parts @ [q]) hs = applyStrCfg_loop E parts hs"
  by (subst applyStrCfg_loop_filter, subst (2) applyStrCfg_loop_filter) simp

lemma applyStrCfg_check_semicolon: "applyStrCfg_check (str @ '';'') = applyStrCfg_check str"
  by (simp add: applyStrCfg_check_def isSimpleASCII_def contains_any_def
      NCMATCFG_FORBIDDEN_CHARS_def)

lemma applyStrCfg_trailing_semicolon: "applyStrCfg E (str @ '';'') hs = applyStrCfg E str hs"
proof -
  have "split (str @ '';'') 0 (CHR '';'') = split str 0 (CHR '';'') @ [[]]"
    using split_lim_append_sep[of "CHR '';''" str] by (simp add: split_def)
  moreover have "trim [] = []" by (simp add: trim_def)
  ultimately show ?thesis
    by (cases "applyStrCfg_check str")
      (simp_all add: applyStrCfg_def applyStrCfg_check_semicolon applyStrCfg_loop_append_blank)
qed

lemma applyStrCfg_loop_error:
  "applyStrCfg_loop E parts hs = (Some e, r) \<Longrightarrow>
     \<exists>part \<in> set parts. trim part \<noteq> []
        \<and> (if key_value_form (trim part)
            then \<exists>name val hs1. applyStrCfg_part part = Inr (Some (name, val))
                   \<and> fst (with_cow (setValByStr E name val) hs1) = Some e
            else applyStrCfg_part part = Inl e)"
proof (induction parts arbitrary: hs)
  case Nil
  then show ?case by simp
next
  case (Cons part parts)
  show ?case
  proof (cases "applyStrCfg_part part")
    case (Inl e1)
    with Cons.prems have e: "e1 = e" by simp
    from Inl have "trim part \<noteq> [] \<and> \<not> key_value_form (trim part)"
      using applyStrCfg_part_error_iff[of part] by blast
    with Inl e show ?thesis by auto
  next
    case (Inr v)
    show ?thesis
    proof (cases v)
      case None
      with Inr Cons.prems have "applyStrCfg_loop E parts hs = (Some e, r)" by simp
      from Cons.IH[OF this] show ?thesis by auto
    next
      case (Some nv)
      obtain name val where nv: "nv = (name, val)" by (cases nv)
      have ne: "trim part \<noteq> []"
        using Inr Some by (auto simp: applyStrCfg_part_def Let_def)
      have kv: "key_value_form (trim part)"
        using applyStrCfg_part_error_iff[of part] Inr ne by auto
      obtain eo h1 st1 where w: "with_cow (setValByStr E name val) hs = (eo, h1, st1)"
        by (cases "with_cow (setValByStr E name val) hs") auto
      show ?thesis
      proof (cases eo)
        case None
        with Cons.prems Inr Some nv w
        have "applyStrCfg_loop E parts (h1, st1) = (Some e, r)" by simp
        from Cons.IH[OF this] show ?thesis by auto
      next
        case (Some e1)
        with Cons.prems Inr \<open>v = Some nv\<close> nv w have "e1 = e" by simp
        with Some w have "fst (with_cow (setValByStr E name val) hs) = Some e" by simp
        with Inr \<open>v = Some nv\<close> nv
        have ex: "\<exists>name val hs1. applyStrCfg_part part = Inr (Some (name, val))
                   \<and> fst (with_cow (setValByStr E name val) hs1) = Some e"
          by blast
        show ?thesis
        proof (rule bexI[of _ part])
          show "trim part \<noteq> []
            \<and> (if key_value_form (trim part)
                then \<exists>name val hs1. applyStrCfg_part part = Inr (Some (name, val))
                       \<and> fst (with_cow (setValByStr E name val) hs1) = Some e
                else applyStrCfg_part part = Inl e)"
            using ne kv ex by (simp only: if_True simp_thms)
        qed simp
      qed
    qed
  qed
qed

text \<open>
  C10, as amended. A segment that is empty or all whitespace is skipped: the loop gives
  the same result, error or not, on the segments with the blank ones removed, so a
  string that ends in \<open>;\<close> has the result of the string without it, and a string of
  blank segments only changes nothing. Before anything is set, a segment is rejected
  exactly when it is not blank and not of the form key=value, and the error is a
  BadInput. When the whole string passes the two character checks, every error of
  \<open>applyStrCfg\<close> comes from a segment that is not blank: either it is not of the form
  key=value, or it is, and setting the named parameter to the value raised the error.
\<close>

theorem applyStrCfg_blank_segments:
  "(trim part = [] \<longrightarrow> applyStrCfg_part part = Inr None)
   \<and> applyStrCfg_loop E parts hs = applyStrCfg_loop E (filter (\<lambda>p. trim p \<noteq> []) parts) hs
   \<and> applyStrCfg E (str @ '';'') hs = applyStrCfg E str hs
   \<and> (applyStrCfg_check str = Inr () \<and> list_all (\<lambda>p. trim p = []) (split str 0 (CHR '';''))
        \<longrightarrow> applyStrCfg E str hs = (None, fst hs, snd hs))
   \<and> ((\<exists>e. applyStrCfg_part part = Inl e) \<longleftrightarrow> (trim part \<noteq> [] \<and> \<not> key_value_form (trim part)))
   \<and> (\<forall>e. applyStrCfg_part part = Inl e \<longrightarrow> isBadInput e)
   \<and> (\<forall>e r. applyStrCfg_check str = Inr () \<and> applyStrCfg E str hs = (Some e, r) \<longrightarrow>
         (\<exists>p \<in> set (split str 0 (CHR '';'')). trim p \<noteq> []
            \<and> (if key_value_form (trim p)
                then \<exists>name val hs1. applyStrCfg_part p = Inr (Some (name, val))
                       \<and> fst (with_cow (setValByStr E name val) hs1) = Some e
                else applyStrCfg_part p = Inl e)))"
proof -
  have 4: "applyStrCfg E str hs = (None, fst hs, snd hs)"
    if "applyStrCfg_check str = Inr ()" "list_all (\<lambda>p. trim p = []) (split str 0 (CHR '';''))"
  proof -
    have "filter (\<lambda>p. trim p \<noteq> []) (split str 0 (CHR '';'')) = []"
      using that(2) by (simp add: list_all_iff filter_empty_conv)
    then have "applyStrCfg_loop E (split str 0 (CHR '';'')) hs = (None, fst hs, snd hs)"
      by (subst applyStrCfg_loop_filter) simp
    with that(1) show ?thesis by (simp add: applyStrCfg_def)
  qed
  have 7: "\<exists>p \<in> set (split str 0 (CHR '';'')). trim p \<noteq> []
            \<and> (if key_value_form (trim p)
                then \<exists>name val hs1. applyStrCfg_part p = Inr (Some (name, val))
                       \<and> fst (with_cow (setValByStr E name val) hs1) = Some e
                else applyStrCfg_part p = Inl e)"
    if "applyStrCfg_check str = Inr ()" "applyStrCfg E str hs = (Some e, r)" for e r
  proof -
    from that have "applyStrCfg_loop E (split str 0 (CHR '';'')) hs = (Some e, r)"
      by (simp add: applyStrCfg_def)
    from applyStrCfg_loop_error[OF this] show ?thesis .
  qed
  show ?thesis
    using applyStrCfg_part_blank[of part] applyStrCfg_loop_filter[of E parts hs]
      applyStrCfg_trailing_semicolon[of E str hs] 4 applyStrCfg_part_error_iff[of part]
      applyStrCfg_part_BadInput[of part] 7
    by (intro conjI impI allI) blast+
qed

theorem applyStrCfg_blank_segments_witness:
  "trim '' '' = [] \<and> applyStrCfg_part '' '' = Inr None
   \<and> applyStrCfg_check '';  ;'' = Inr ()
   \<and> list_all (\<lambda>p. trim p = []) (split '';  ;'' 0 (CHR '';''))
   \<and> applyStrCfg ext0 '';  ;'' (0, [Some (new_Impl\<lparr> m_refCount := 1 \<rparr>)])
       = (None, 0, [Some (new_Impl\<lparr> m_refCount := 1 \<rparr>)])
   \<and> applyStrCfg_part ''temp'' = Inl (BadInput ''Bad syntax in parameter specification: '')
   \<and> isBadInput (BadInput ''Bad syntax in parameter specification: '')
   \<and> applyStrCfg_check ''foo=1'' = Inr ()
   \<and> applyStrCfg ext0 ''foo=1'' (0, [Some (new_Impl\<lparr> m_refCount := 1 \<rparr>)])
       = (Some (BadInput ''Unknown parameter: ''), 0, [Some (new_Impl\<lparr> m_refCount := 1 \<rparr>)])
   \<and> (\<exists>p \<in> set (split ''foo=1'' 0 (CHR '';'')). trim p \<noteq> []
        \<and> (if key_value_form (trim p)
            then \<exists>name val hs1. applyStrCfg_part p = Inr (Some (name, val))
                   \<and> fst (with_cow (setValByStr ext0 name val) hs1) = Some (BadInput ''Unknown parameter: '')
            else applyStrCfg_part p = Inl (BadInput ''Unknown parameter: '')))"
proof -
  have a: "trim '' '' = []" by (simp add: trim_def is_ws_def)
  have b: "applyStrCfg_check '';  ;'' = Inr ()" "applyStrCfg_check ''foo=1'' = Inr ()"
    by (simp_all add: applyStrCfg_check_def isSimpleASCII_def contains_any_def
        NCMATCFG_FORBIDDEN_CHARS_def)
  have c: "list_all (\<lambda>p. trim p = []) (split '';  ;'' 0 (CHR '';''))"
    by (simp add: split_def trim_def is_ws_def)
  have d: "applyStrCfg_part ''temp'' = Inl (BadInput ''Bad syntax in parameter specification: '')"
    by (simp add: applyStrCfg_part_def split_def trim_def is_ws_def)
  have e: "applyStrCfg ext0 ''foo=1'' (0, [Some (new_Impl\<lparr> m_refCount := 1 \<rparr>)])
       = (Some (BadInput ''Unknown parameter: ''), 0, [Some (new_Impl\<lparr> m_refCount := 1 \<rparr>)])"
    by (simp add: applyStrCfg_def b applyStrCfg_part_def split_def trim_def is_ws_def
        with_cow_def cow_def impl_at_def setValByStr_def setValByStr_par_def strNameToParIdx_def
        all_pars_def)
  note T1 = applyStrCfg_blank_segments[of "'' ''" ext0 "[]" "(0, [Some (new_Impl\<lparr> m_refCount := 1 \<rparr>)])" "'';  ;''"]
  note T2 = applyStrCfg_blank_segments[of "''temp''" ext0 "[]" "(0, [Some (new_Impl\<lparr> m_refCount := 1 \<rparr>)])" "''foo=1''"]
  have 1: "applyStrCfg_part '' '' = Inr None" using T1 a by blast
  have 2: "applyStrCfg ext0 '';  ;'' (0, [Some (new_Impl\<lparr> m_refCount := 1 \<rparr>)])
       = (None, 0, [Some (new_Impl\<lparr> m_refCount := 1 \<rparr>)])"
    using T1 b(1) c by simp
  have 3: "isBadInput (BadInput ''Bad syntax in parameter specification: '')"
    using T2 d by blast
  have 4: "\<exists>p \<in> set (split ''foo=1'' 0 (CHR '';'')). trim p \<noteq> []
        \<and> (if key_value_form (trim p)
            then \<exists>name val hs1. applyStrCfg_part p = Inr (Some (name, val))
                   \<and> fst (with_cow (setValByStr ext0 name val) hs1) = Some (BadInput ''Unknown parameter: '')
            else applyStrCfg_part p = Inl (BadInput ''Unknown parameter: ''))"
    using T2 b(2) e by blast
  from a 1 b c 2 d 3 e 4 show ?thesis by (intro conjI)
qed

text \<open>
  C10, the last clause of the claim. The string \<open>foo=1\<close> has one segment, not empty and
  of the form key=value, and \<open>applyStrCfg\<close> raises BadInput on it: no parameter is named
  \<open>foo\<close>. So does \<open>temp=abc\<close>, whose value is read as a unit without a number, and a string with a quote
  character, which is rejected before it is split.
\<close>

theorem applyStrCfg_blank_segments_counterexample:
  "key_value_form (trim ''foo=1'')
   \<and> split ''foo=1'' 0 (CHR '';'') = [''foo=1'']
   \<and> applyStrCfg ext0 ''foo=1'' (0, [Some (new_Impl\<lparr> m_refCount := 1 \<rparr>)])
       = (Some (BadInput ''Unknown parameter: ''), 0, [Some (new_Impl\<lparr> m_refCount := 1 \<rparr>)])
   \<and> key_value_form (trim ''temp=abc'')
   \<and> fst (applyStrCfg ext0 ''temp=abc'' (0, [Some (new_Impl\<lparr> m_refCount := 1 \<rparr>)]))
       = Some (BadInput ''Invalid unit: '')
   \<and> fst (applyStrCfg ext0 [CHR 0x22] (0, [Some (new_Impl\<lparr> m_refCount := 1 \<rparr>)]))
       = Some (BadInput ''Forbidden characters in parameter specification!'')"
proof -
  have b: "applyStrCfg_check ''foo=1'' = Inr ()" "applyStrCfg_check ''temp=abc'' = Inr ()"
    by (simp_all add: applyStrCfg_check_def isSimpleASCII_def contains_any_def
        NCMATCFG_FORBIDDEN_CHARS_def)
  have 1: "key_value_form (trim ''foo=1'')" "key_value_form (trim ''temp=abc'')"
    by (simp_all add: key_value_form_def split_def trim_def is_ws_def)
  have 2: "split ''foo=1'' 0 (CHR '';'') = [''foo=1'']" by (simp add: split_def)
  have 3: "applyStrCfg ext0 ''foo=1'' (0, [Some (new_Impl\<lparr> m_refCount := 1 \<rparr>)])
       = (Some (BadInput ''Unknown parameter: ''), 0, [Some (new_Impl\<lparr> m_refCount := 1 \<rparr>)])"
    by (simp add: applyStrCfg_def b applyStrCfg_part_def split_def trim_def is_ws_def
        with_cow_def cow_def impl_at_def setValByStr_def setValByStr_par_def strNameToParIdx_def
        all_pars_def)
  have 4: "fst (applyStrCfg ext0 ''temp=abc'' (0, [Some (new_Impl\<lparr> m_refCount := 1 \<rparr>)]))
       = Some (BadInput ''Invalid unit: '')"
    by (simp add: applyStrCfg_def b applyStrCfg_part_def split_def trim_def is_ws_def
        with_cow_def cow_def impl_at_def setValByStr_def setValByStr_par_def strNameToParIdx_def
        all_pars_def getValTypeForSet_def ensureNoSpy_def ValDbl_set_from_strrep_def
        contains_def alpha_def unit_switch_def dle_def)
  have 5: "fst (applyStrCfg ext0 [CHR 0x22] (0, [Some (new_Impl\<lparr> m_refCount := 1 \<rparr>)]))
       = Some (BadInput ''Forbidden characters in parameter specification!'')"
    by (simp add: applyStrCfg_def applyStrCfg_check_def isSimpleASCII_def contains_any_def
        NCMATCFG_FORBIDDEN_CHARS_def)
  from 1 2 3 4 5 show ?thesis by (intro conjI)
qed

end
